theory Spec2Isabelle
  imports Complex_Main "HOL-Library.AList"
begin

section \<open>Python values used by \<open>convert_image\<close>\<close>

text \<open>
  The embedding follows \<^verbatim>\<open>src/cngi/conversion/convert_image.py\<close>. Python exceptions are
  values of \<open>pyerror\<close>; a computation that may raise has a result of type
  \<open>pyerror + 'a\<close> with \<open>Inl\<close> for the exception.
\<close>

datatype pyerror = ValueError | KeyError | IndexError | TypeError | AttributeError | RuntimeError

text \<open>Sequencing of computations that may raise.\<close>

definition bind_err :: "pyerror + 'a \<Rightarrow> ('a \<Rightarrow> pyerror + 'b) \<Rightarrow> pyerror + 'b" where
  "bind_err m f = (case m of Inl e \<Rightarrow> Inl e | Inr x \<Rightarrow> f x)"

fun map_err :: "('a \<Rightarrow> pyerror + 'b) \<Rightarrow> 'a list \<Rightarrow> pyerror + 'b list" where
  "map_err f [] = Inr []"
| "map_err f (x # xs) = bind_err (f x) (\<lambda>y. bind_err (map_err f xs) (\<lambda>ys. Inr (y # ys)))"

text \<open>\<^verbatim>\<open>xs[i]\<close> for a list and an index that is not negative.\<close>

definition nth_err :: "'a list \<Rightarrow> nat \<Rightarrow> pyerror + 'a" where
  "nth_err xs i = (if i < length xs then Inr (xs ! i) else Inl IndexError)"

text \<open>\<^verbatim>\<open>enumerate(xs)\<close>\<close>

definition enumerate_list :: "'a list \<Rightarrow> (nat \<times> 'a) list" where
  "enumerate_list xs = zip [0..<length xs] xs"

subsection \<open>Strings\<close>

text \<open>
  A string is a list of characters, and a character is a code point below 256 (ASCII and
  the Latin-1 supplement). The functions below are Python's on such strings.

  \<^verbatim>\<open>str.lower()\<close>: the upper-case letters below 256 are \<^verbatim>\<open>A\<close> to \<^verbatim>\<open>Z\<close> (65 to 90) and the
  letters 192 to 222 without the multiplication sign 215; each has its lower-case letter
  32 places above it.
\<close>

definition lower_char :: "char \<Rightarrow> char" where
  "lower_char c =
     (let n = (of_char c :: nat)
      in if (65 \<le> n \<and> n \<le> 90) \<or> (192 \<le> n \<and> n \<le> 222 \<and> n \<noteq> 215) then char_of (n + 32) else c)"

definition lower :: "string \<Rightarrow> string" where
  "lower s = map lower_char s"

text \<open>\<^verbatim>\<open>str.replace(a, b)\<close> for one-character \<open>a\<close> and \<open>b\<close>\<close>

definition replace_char :: "char \<Rightarrow> char \<Rightarrow> string \<Rightarrow> string" where
  "replace_char a b s = map (\<lambda>c. if c = a then b else c) s"

text \<open>\<^verbatim>\<open>str.replace(old, new)\<close> for a non-empty \<open>old\<close>: leftmost, non-overlapping.\<close>

fun startswith :: "string \<Rightarrow> string \<Rightarrow> bool" where
  "startswith s [] = True"
| "startswith [] (p # ps) = False"
| "startswith (c # cs) (p # ps) = (c = p \<and> startswith cs ps)"

function replace_str :: "string \<Rightarrow> string \<Rightarrow> string \<Rightarrow> string" where
  "replace_str old new s =
     (if old = [] \<or> s = [] then s
      else if startswith s old then new @ replace_str old new (drop (length old) s)
      else hd s # replace_str old new (tl s))"
  by pat_completeness auto
termination
  by (relation "measure (\<lambda>(old, new, s). length s)") auto

text \<open>\<^verbatim>\<open>sub in s\<close>\<close>

fun contains :: "string \<Rightarrow> string \<Rightarrow> bool" where
  "contains sub [] = (sub = [])"
| "contains sub (c # cs) = (startswith (c # cs) sub \<or> contains sub cs)"

text \<open>\<^verbatim>\<open>str.split(sep)\<close> for a one-character separator: empty fields are kept.\<close>

fun split_on :: "char \<Rightarrow> string \<Rightarrow> string list" where
  "split_on sep [] = [[]]"
| "split_on sep (c # cs) =
     (if c = sep then [] # split_on sep cs
      else (case split_on sep cs of w # ws \<Rightarrow> (c # w) # ws | [] \<Rightarrow> [[c]]))"

text \<open>
  \<^verbatim>\<open>str.strip()\<close> removes leading and trailing whitespace; the whitespace below 256 is
  the codes 9 to 13 and 28 to 32, the next-line control 133 and the no-break space 160.
\<close>

definition is_space :: "char \<Rightarrow> bool" where
  "is_space c =
     (let n = (of_char c :: nat)
      in (9 \<le> n \<and> n \<le> 13) \<or> (28 \<le> n \<and> n \<le> 32) \<or> n = 133 \<or> n = 160)"

definition strip :: "string \<Rightarrow> string" where
  "strip s = rev (dropWhile is_space (rev (dropWhile is_space s)))"

text \<open>\<^verbatim>\<open>str.rindex(c)\<close>: the highest index of \<open>c\<close>, ValueError when there is none.\<close>

definition rindex :: "string \<Rightarrow> char \<Rightarrow> pyerror + nat" where
  "rindex s c =
     (if c \<in> set s then Inr (length s - 1 - length (takeWhile (\<lambda>x. x \<noteq> c) (rev s)))
      else Inl ValueError)"

text \<open>\<^verbatim>\<open>list.index(x)\<close>: the lowest index of \<open>x\<close>, ValueError when there is none.\<close>

definition list_index :: "'a list \<Rightarrow> 'a \<Rightarrow> pyerror + nat" where
  "list_index xs x =
     (if x \<in> set xs then Inr (length (takeWhile (\<lambda>y. y \<noteq> x) xs)) else Inl ValueError)"

text \<open>Lines 64-65: \<^verbatim>\<open>while suffix.endswith('/'): suffix = suffix[:-1]\<close>\<close>

function strip_slashes :: "string \<Rightarrow> string" where
  "strip_slashes s = (if s \<noteq> [] \<and> last s = CHR ''/'' then strip_slashes (butlast s) else s)"
  by pat_completeness auto
termination
  by (relation "measure length") auto

text \<open>\<^verbatim>\<open>str(n)\<close> for a natural number.\<close>

definition digit_char :: "nat \<Rightarrow> char" where
  "digit_char d = char_of (48 + d)"

function str_nat :: "nat \<Rightarrow> string" where
  "str_nat n = (if n < 10 then [digit_char n] else str_nat (n div 10) @ [digit_char (n mod 10)])"
  by pat_completeness auto
termination
  by (relation "measure id") auto

subsection \<open>Dictionaries\<close>

text \<open>
  A Python \<open>dict\<close> is an association list with distinct keys in insertion order.
  \<open>d[k] = v\<close> is \<^const>\<open>AList.update\<close>: it replaces the value in place when the key is
  there and appends the pair otherwise. \<open>dict(pairs)\<close> and \<open>d.update(e)\<close> insert the
  pairs from left to right, so a later pair overrides an earlier one with the same key.
\<close>

definition dict_update :: "('k \<times> 'v) list \<Rightarrow> ('k \<times> 'v) list \<Rightarrow> ('k \<times> 'v) list" where
  "dict_update d e = foldl (\<lambda>acc kv. AList.update (fst kv) (snd kv) acc) d e"

definition dict_of :: "('k \<times> 'v) list \<Rightarrow> ('k \<times> 'v) list" where
  "dict_of ps = dict_update [] ps"

subsection \<open>Summary values and attributes\<close>

text \<open>
  The values of the reader's summary record and of the attribute mapping: strings,
  numbers, booleans, lists, nested dictionaries, and the item list that
  \<^verbatim>\<open>list(nested_to_record(...).items())\<close> produces.
\<close>

datatype sval =
    SStr string
  | SNum real
  | SBool bool
  | SList "sval list"
  | SDict "(string \<times> sval) list"
  | SItems "(string \<times> sval) list"

section \<open>Arrays\<close>

text \<open>
  A numpy array is its shape and its elements in C (row-major) order. \<open>ravel\<close> and
  \<open>unravel\<close> convert between an index vector and a position in that order;
  \<open>tabulate s f\<close> is the array of shape \<open>s\<close> whose element at index \<open>idx\<close> is
  \<open>f idx\<close>, and \<open>item a idx\<close> reads one element.
\<close>

record 'a ndarray =
  shape :: "nat list"
  data :: "'a list"

fun unravel :: "nat list \<Rightarrow> nat \<Rightarrow> nat list" where
  "unravel [] k = []"
| "unravel (n # ns) k = (k div prod_list ns) # unravel ns (k mod prod_list ns)"

fun ravel :: "nat list \<Rightarrow> nat list \<Rightarrow> nat" where
  "ravel (n # ns) (i # idx) = i * prod_list ns + ravel ns idx"
| "ravel [] idx = 0"
| "ravel (n # ns) [] = 0"

definition tabulate :: "nat list \<Rightarrow> (nat list \<Rightarrow> 'a) \<Rightarrow> 'a ndarray" where
  "tabulate s f = \<lparr>shape = s, data = map (\<lambda>k. f (unravel s k)) [0..<prod_list s]\<rparr>"

definition item :: "'a ndarray \<Rightarrow> nat list \<Rightarrow> 'a" where
  "item a idx = data a ! ravel (shape a) idx"

definition ndim :: "'a ndarray \<Rightarrow> nat" where
  "ndim a = length (shape a)"

text \<open>An index vector is valid for a shape when it has one entry per axis, each below the extent.\<close>

definition valid_index :: "nat list \<Rightarrow> nat list \<Rightarrow> bool" where
  "valid_index s idx = list_all2 (\<lambda>i n. i < n) idx s"

text \<open>The element type of an array: float, bool or integer.\<close>

datatype cell = F real | B bool | I int

text \<open>\<^verbatim>\<open>a.astype(bool)\<close> on a float array: an element is true when it is not zero.\<close>

definition astype_bool :: "real ndarray \<Rightarrow> cell ndarray" where
  "astype_bool a = \<lparr>shape = shape a, data = map (\<lambda>x. B (x \<noteq> 0)) (data a)\<rparr>"

definition as_float :: "real ndarray \<Rightarrow> cell ndarray" where
  "as_float a = \<lparr>shape = shape a, data = map F (data a)\<rparr>"

definition as_mask :: "bool ndarray \<Rightarrow> cell ndarray" where
  "as_mask a = \<lparr>shape = shape a, data = map B (data a)\<rparr>"

text \<open>\<^verbatim>\<open>a.reshape(s)\<close>: ValueError unless the sizes agree.\<close>

definition reshape :: "nat list \<Rightarrow> 'a ndarray \<Rightarrow> pyerror + 'a ndarray" where
  "reshape s a =
     (if prod_list s = length (data a) then Inr \<lparr>shape = s, data = data a\<rparr> else Inl ValueError)"

text \<open>
  \<^verbatim>\<open>a.reshape(k, -1)\<close>: numpy infers the second extent as \<open>size / k\<close> and raises
  ValueError when \<open>k\<close> is zero or does not divide the size.
\<close>

definition reshape_rows :: "nat \<Rightarrow> 'a ndarray \<Rightarrow> pyerror + 'a ndarray" where
  "reshape_rows k a =
     (if k = 0 \<or> length (data a) mod k \<noteq> 0 then Inl ValueError
      else Inr \<lparr>shape = [k, length (data a) div k], data = data a\<rparr>)"

text \<open>\<^verbatim>\<open>a[i]\<close> for an integer \<open>i\<close>: the sub-array at position \<open>i\<close> of the first axis.\<close>

definition subarray :: "'a ndarray \<Rightarrow> nat \<Rightarrow> pyerror + 'a ndarray" where
  "subarray a i =
     (case shape a of
        [] \<Rightarrow> Inl IndexError
      | n # ns \<Rightarrow>
          if i < n then Inr \<lparr>shape = ns, data = take (prod_list ns) (drop (i * prod_list ns) (data a))\<rparr>
          else Inl IndexError)"

text \<open>\<^verbatim>\<open>a[rows]\<close> for a list of row numbers: the listed sub-arrays, stacked.\<close>

definition select_rows :: "nat list \<Rightarrow> 'a ndarray \<Rightarrow> 'a ndarray" where
  "select_rows rows a =
     tabulate (length rows # tl (shape a)) (\<lambda>idx. item a ((rows ! hd idx) # tl idx))"

text \<open>
  \<^verbatim>\<open>np.mgrid[[range(n0), ..., range(nk)]]\<close>: the array of shape \<open>(k, n0, ..., nk)\<close> whose
  element \<open>[d, i0, ..., ik]\<close> is \<open>i_d\<close>.
\<close>

definition mgrid :: "nat list \<Rightarrow> nat ndarray" where
  "mgrid ns = tabulate (length ns # ns) (\<lambda>idx. tl idx ! hd idx)"

text \<open>\<^verbatim>\<open>np.arange(n) + start\<close>\<close>

definition arange_from :: "nat \<Rightarrow> nat \<Rightarrow> cell ndarray" where
  "arange_from n start = \<lparr>shape = [n], data = map (\<lambda>i. I (int (i + start))) [0..<n]\<rparr>"

section \<open>The legacy image reader\<close>

text \<open>
  Modelled from the spec: the legacy image reader (casatools \<open>image\<close>) is an external
  collaborator. An image on disk has axis names and units, pixel data (whose shape is
  what \<^verbatim>\<open>IA.shape()\<close> and \<^verbatim>\<open>summary['shape']\<close> return), a pixel mask with the names of
  its masks, the diagnostic messages, the remaining fields of its summary (\<open>others\<close>, with
  distinct keys other than the five named ones) and the pixel-to-world transform of its
  coordinate system.
\<close>

record legacy_image =
  axisnames :: "string list"
  axisunits :: "string list"
  pixels :: "real ndarray"
  pixelmask :: "bool ndarray"
  masks :: "string list"
  messages :: "string list"
  others :: "(string \<times> sval) list"
  toworld :: "real list \<Rightarrow> real list"

text \<open>\<^verbatim>\<open>IA.summary(list=False)\<close> as a dictionary.\<close>

definition summary :: "legacy_image \<Rightarrow> (string \<times> sval) list" where
  "summary img =
     [(''axisnames'', SList (map SStr (axisnames img))),
      (''axisunits'', SList (map SStr (axisunits img))),
      (''masks'', SList (map SStr (masks img))),
      (''messages'', SList (map SStr (messages img))),
      (''shape'', SList (map (\<lambda>n. SNum (real n)) (shape (pixels img))))] @ others img"

text \<open>
  Modelled from the spec: \<^verbatim>\<open>toworldmany\<close> takes an array of shape \<open>(k, M)\<close> whose columns
  are pixel positions and returns the array of the same shape whose columns are their
  world coordinates.
\<close>

definition column :: "'a ndarray \<Rightarrow> nat \<Rightarrow> 'a list" where
  "column a j = map (\<lambda>d. item a [d, j]) [0..<hd (shape a)]"

definition toworldmany :: "(real list \<Rightarrow> real list) \<Rightarrow> nat ndarray \<Rightarrow> real ndarray" where
  "toworldmany tw a = tabulate (shape a) (\<lambda>idx. tw (map real (column a (idx ! 1))) ! (idx ! 0))"

text \<open>
  Modelled from the spec: \<^verbatim>\<open>getchunk(blc, trc)\<close> returns the pixels between the corners
  \<open>blc\<close> and \<open>trc\<close>, both inclusive. The reader first fixes the corners against the image
  shape: a missing, negative or too large entry of \<open>blc\<close> becomes 0, a missing, negative or
  too large entry of \<open>trc\<close> becomes the last pixel, and an axis whose \<open>blc\<close> then exceeds its
  \<open>trc\<close> is taken whole. This is how the code's \<open>-1\<close> entries select a full axis.
\<close>

definition fix_corner :: "int list \<Rightarrow> int list \<Rightarrow> nat list \<Rightarrow> nat \<Rightarrow> nat \<times> nat" where
  "fix_corner blc trc s i =
     (let n = int (s ! i);
          b0 = (if i < length blc then blc ! i else 0);
          b = (if b0 < 0 \<or> b0 > n - 1 then 0 else b0);
          t0 = (if i < length trc then trc ! i else n - 1);
          t = (if t0 < 0 \<or> t0 > n - 1 then n - 1 else t0)
      in if b > t then (0, nat n) else (nat b, nat (t - b + 1)))"

definition getchunk_of :: "'a ndarray \<Rightarrow> int list \<Rightarrow> int list \<Rightarrow> 'a ndarray" where
  "getchunk_of a blc trc =
     (let box = map (fix_corner blc trc (shape a)) [0..<length (shape a)]
      in tabulate (map snd box) (\<lambda>idx. item a (map (\<lambda>i. fst (box ! i) + idx ! i) [0..<length box])))"

definition getchunk :: "legacy_image \<Rightarrow> int list \<Rightarrow> int list \<Rightarrow> real ndarray" where
  "getchunk img blc trc = getchunk_of (pixels img) blc trc"

definition getchunk_mask :: "legacy_image \<Rightarrow> int list \<Rightarrow> int list \<Rightarrow> bool ndarray" where
  "getchunk_mask img blc trc = getchunk_of (pixelmask img) blc trc"

section \<open>Metadata of one artifact (lines 94-136)\<close>

subsection \<open>Coordinate Resolver (lines 96-121)\<close>

text \<open>
  A coordinate is either a pair \<^verbatim>\<open>(dims, array)\<close> with explicit dimension names
  (line 106) or a bare array (line 116).
\<close>

datatype coord = Dimmed "string list" "cell ndarray" | Bare "cell ndarray"

record metadata =
  coords :: "(string \<times> coord) list"
  dsize :: "nat list"
  dims :: "string list"
  attrs :: "(string \<times> sval) list"

text \<open>Line 96.\<close>

definition coord_name :: "string \<Rightarrow> string" where
  "coord_name ss =
     replace_str ''frequency'' ''chan''
       (replace_str ''stokes'' ''pol'' (lower (replace_char (CHR '' '') (CHR ''_'') ss)))"

text \<open>Line 100; reading the unit of an axis that has none raises IndexError.\<close>

definition sphr_dims_of :: "string list \<Rightarrow> nat \<Rightarrow> pyerror + nat list" where
  "sphr_dims_of units n =
     (if length units < n then Inl IndexError
      else Inr (filter (\<lambda>dd. units ! dd = ''rad'') [0..<n]))"

text \<open>Line 109.\<close>

definition cart_dims_of :: "nat list \<Rightarrow> nat \<Rightarrow> nat list" where
  "cart_dims_of sphr_dims n = filter (\<lambda>dd. dd \<notin> set sphr_dims) [0..<n]"

text \<open>
  Lines 101-104 and 110-113, for the axes \<open>ds\<close>: the pixel grid that sweeps the axes in
  \<open>ds\<close> and keeps every other axis at pixel 0, its world coordinates, the rows of the
  axes in \<open>ds\<close>, reshaped to the extents of those axes.
\<close>

definition grid_shape :: "nat list \<Rightarrow> nat list \<Rightarrow> nat list" where
  "grid_shape ims ds = map (\<lambda>dd. if dd \<in> set ds then ims ! dd else 1) [0..<length ims]"

definition world_grid :: "(real list \<Rightarrow> real list) \<Rightarrow> nat list \<Rightarrow> nat list \<Rightarrow> pyerror + cell ndarray" where
  "world_grid tw ims ds =
     bind_err (reshape_rows (length ims) (mgrid (grid_shape ims ds))) (\<lambda>coord_idxs.
     bind_err (reshape (length ds # map (\<lambda>dd. ims ! dd) ds)
                 (select_rows ds (toworldmany tw coord_idxs))) (\<lambda>coord_world.
     Inr (as_float coord_world)))"

text \<open>Lines 105-106.\<close>

definition sphr_coords :: "string list \<Rightarrow> nat list \<Rightarrow> cell ndarray \<Rightarrow> pyerror + (string \<times> coord) list" where
  "sphr_coords coord_names sphr_dims coord_world =
     (let spi = map (\<lambda>dd. ''d'' @ str_nat dd) sphr_dims
      in bind_err
           (map_err (\<lambda>p. bind_err (nth_err coord_names (snd p)) (\<lambda>name.
                          bind_err (subarray coord_world (fst p)) (\<lambda>cw.
                          Inr (name, Dimmed spi cw))))
              (enumerate_list sphr_dims))
           (\<lambda>ps. Inr (dict_of ps)))"

text \<open>
  Line 115: the index \<open>spi\<close> takes axis \<open>dd\<close> whole (\<^verbatim>\<open>slice(None)\<close>) and the first
  position of every other axis (\<^verbatim>\<open>slice(1)\<close>); no axis is dropped.
\<close>

definition slice_spi :: "nat \<Rightarrow> 'a ndarray \<Rightarrow> 'a ndarray" where
  "slice_spi dd cs =
     tabulate (map (\<lambda>di. if di = dd then shape cs ! di else min 1 (shape cs ! di)) [0..<ndim cs])
       (item cs)"

text \<open>Lines 114-116: the loop over the rows of the cartesian grid, updating \<open>coords\<close>.\<close>

fun cart_coords_loop ::
  "string list \<Rightarrow> nat list \<Rightarrow> cell ndarray \<Rightarrow> nat list \<Rightarrow> (string \<times> coord) list
     \<Rightarrow> pyerror + (string \<times> coord) list" where
  "cart_coords_loop coord_names cart_dims coord_world [] cds = Inr cds"
| "cart_coords_loop coord_names cart_dims coord_world (dd # rest) cds =
     bind_err (subarray coord_world dd) (\<lambda>cs.
     bind_err (subarray (slice_spi dd cs) 0) (\<lambda>vec.
     bind_err (nth_err coord_names (cart_dims ! dd)) (\<lambda>name.
     cart_coords_loop coord_names cart_dims coord_world rest (AList.update name (Bare vec) cds))))"

definition cart_coords ::
  "string list \<Rightarrow> nat list \<Rightarrow> cell ndarray \<Rightarrow> (string \<times> coord) list
     \<Rightarrow> pyerror + (string \<times> coord) list" where
  "cart_coords coord_names cart_dims coord_world cds =
     cart_coords_loop coord_names cart_dims coord_world [0..<hd (shape coord_world)] cds"

text \<open>Line 121.\<close>

definition dims_of :: "string list \<Rightarrow> nat list \<Rightarrow> nat \<Rightarrow> pyerror + string list" where
  "dims_of coord_names cart_dims n =
     map_err (\<lambda>di. if di \<in> set cart_dims then nth_err coord_names di else Inr (''d'' @ str_nat di))
       [0..<n]"

subsection \<open>Metadata Normalizer: the summary fields (lines 124-128)\<close>

definition attr_omits :: "string list" where
  "attr_omits = [''axisnames'', ''incr'', ''hasmask'', ''masks'', ''defaultmask'', ''ndim'',
                 ''refpix'', ''refval'', ''shape'', ''tileshape'', ''messages'']"

definition is_dict :: "sval \<Rightarrow> bool" where
  "is_dict v = (case v of SDict d \<Rightarrow> True | _ \<Rightarrow> False)"

text \<open>
  Modelled from the spec: pandas' \<^verbatim>\<open>nested_to_record(d, sep='.')\<close> flattens a nested
  dictionary to dotted keys. It works on a copy \<open>new_d\<close> of the dictionary: a nested
  dictionary is removed and its flattened items are inserted; below the top level every
  other entry is removed and inserted again under its prefixed key.
\<close>

fun nested_to_record ::
  "string \<Rightarrow> nat \<Rightarrow> (string \<times> sval) list \<Rightarrow> (string \<times> sval) list \<Rightarrow> (string \<times> sval) list" where
  "nested_to_record prefix level [] new_d = new_d"
| "nested_to_record prefix level ((k, v) # rest) new_d =
     (let newkey = (if level = 0 then k else prefix @ ''.'' @ k)
      in case v of
           SDict sub \<Rightarrow>
             nested_to_record prefix level rest
               (dict_update (AList.delete k new_d) (nested_to_record newkey (Suc level) sub sub))
         | _ \<Rightarrow>
             nested_to_record prefix level rest
               (if level = 0 then new_d else AList.update newkey v (AList.delete k new_d)))"

definition summary_attrs :: "(string \<times> sval) list \<Rightarrow> (string \<times> sval) list" where
  "summary_attrs sm =
     (let nested = filter (\<lambda>kv. is_dict (snd kv)) sm;
          omits = attr_omits @ map fst nested;
          plain = dict_of (map (\<lambda>kv. (lower (fst kv), snd kv)) (filter (\<lambda>kv. fst kv \<notin> set omits) sm))
      in dict_update plain
           (dict_of (map (\<lambda>kv. (fst kv,
                           SItems (case snd kv of SDict d \<Rightarrow> nested_to_record [] 0 d d | _ \<Rightarrow> [])))
                       nested)))"

subsection \<open>Metadata Normalizer: the messages (lines 131-136)\<close>

definition msg_omits :: "string list" where
  "msg_omits = [''image_name'', ''image_type'', ''image_quantity'', ''pixel_mask(s)'',
                ''region(s)'', ''image_units'']"

definition newline :: char where
  "newline = CHR 0x0A"

text \<open>
  Line 133: \<^verbatim>\<open>[tuple(kk.split(':')) for kk in msg.lower().split('\n') if ': ' in kk]\<close>.
  Line 134 reads the fields 0 and 1 of every tuple; a line that contains \<^verbatim>\<open>': '\<close> has at
  least two fields, so neither read is out of range.
\<close>

definition msg_fields :: "string \<Rightarrow> string list list" where
  "msg_fields msg =
     map (split_on (CHR '':'')) (filter (contains '': '') (split_on newline (lower msg)))"

definition msg_pair :: "string list \<Rightarrow> string \<times> string" where
  "msg_pair kk = (replace_char (CHR '' '') (CHR ''_'') (strip (kk ! 0)), strip (kk ! 1))"

definition parse_message :: "string \<Rightarrow> (string \<times> string) list" where
  "parse_message msg =
     filter (\<lambda>ll. fst ll \<notin> set msg_omits) (map msg_pair (msg_fields msg))"

text \<open>Lines 132-136: the loop over the messages, updating \<^verbatim>\<open>tm['attrs']\<close>.\<close>

definition parse_messages :: "(string \<times> sval) list \<Rightarrow> string list \<Rightarrow> (string \<times> sval) list" where
  "parse_messages attrs0 msgs =
     foldl (\<lambda>acc msg. dict_update acc (dict_of (map (\<lambda>ll. (fst ll, SStr (snd ll))) (parse_message msg))))
       attrs0 msgs"

subsection \<open>Lines 94-136 together\<close>

definition read_metadata :: "legacy_image \<Rightarrow> pyerror + metadata" where
  "read_metadata img =
     (let ims = shape (pixels img);
          coord_names = map coord_name (axisnames img)
      in bind_err (sphr_dims_of (axisunits img) (length ims)) (\<lambda>sphr_dims.
         bind_err (world_grid (toworld img) ims sphr_dims) (\<lambda>sphr_world.
         bind_err (sphr_coords coord_names sphr_dims sphr_world) (\<lambda>coords0.
         let cart_dims = cart_dims_of sphr_dims (length ims) in
         bind_err (world_grid (toworld img) ims cart_dims) (\<lambda>cart_world.
         bind_err (cart_coords coord_names cart_dims cart_world coords0) (\<lambda>coords1.
         bind_err (dims_of coord_names cart_dims (length ims)) (\<lambda>ds.
         Inr \<lparr>coords = coords1, dsize = ims, dims = ds,
              attrs = parse_messages (summary_attrs (summary img)) (messages img)\<rparr>)))))))"







section \<open>Datasets and the destination store\<close>

text \<open>
  Modelled from the spec: the container (xarray) and the destination store (zarr) are
  external collaborators. A data array is an array with one dimension name per axis; a
  dataset maps variable names to data arrays, with coordinates, attributes and the chunk
  extents per dimension.
\<close>

record dataarray =
  da_dims :: "string list"
  da_data :: "cell ndarray"

record dataset =
  data_vars :: "(string \<times> dataarray) list"
  ds_coords :: "(string \<times> dataarray) list"
  ds_attrs :: "(string \<times> sval) list"
  ds_chunks :: "(string \<times> int) list"

text \<open>\<^verbatim>\<open>xa(data, dims=...)\<close>: ValueError unless there is one name per axis.\<close>

definition xa :: "cell ndarray \<Rightarrow> string list \<Rightarrow> pyerror + dataarray" where
  "xa a ds = (if length ds = ndim a then Inr \<lparr>da_dims = ds, da_data = a\<rparr> else Inl ValueError)"

text \<open>
  A coordinate given as \<^verbatim>\<open>(dims, array)\<close> has those dimensions; a bare array is a scalar
  coordinate when it has no axis, the coordinate of the dimension of its own name when it
  has one axis, and is refused otherwise.
\<close>

definition coord_variable :: "string \<Rightarrow> coord \<Rightarrow> pyerror + dataarray" where
  "coord_variable name c =
     (case c of
        Dimmed ds a \<Rightarrow> xa a ds
      | Bare a \<Rightarrow>
          if ndim a = 0 then Inr \<lparr>da_dims = [], da_data = a\<rparr>
          else if ndim a = 1 then Inr \<lparr>da_dims = [name], da_data = a\<rparr>
          else Inl ValueError)"

text \<open>The sizes of the dimensions: ValueError when two variables disagree on one.\<close>

fun add_dims :: "(string \<times> nat) list \<Rightarrow> (string \<times> nat) list \<Rightarrow> pyerror + (string \<times> nat) list" where
  "add_dims [] acc = Inr acc"
| "add_dims ((d, n) # rest) acc =
     (case map_of acc d of
        None \<Rightarrow> add_dims rest (acc @ [(d, n)])
      | Some m \<Rightarrow> if m = n then add_dims rest acc else Inl ValueError)"

fun dim_sizes :: "(string \<times> dataarray) list \<Rightarrow> (string \<times> nat) list \<Rightarrow> pyerror + (string \<times> nat) list" where
  "dim_sizes [] acc = Inr acc"
| "dim_sizes (kv # rest) acc =
     bind_err (add_dims (zip (da_dims (snd kv)) (shape (da_data (snd kv)))) acc) (dim_sizes rest)"

text \<open>
  \<^verbatim>\<open>xd(xdas, coords=..., attrs=...)\<close>: ValueError when a coordinate is malformed, when a
  name is both a variable and a coordinate, or when the sizes of a dimension conflict.
\<close>

definition xd ::
  "(string \<times> dataarray) list \<Rightarrow> (string \<times> coord) list \<Rightarrow> (string \<times> sval) list \<Rightarrow> pyerror + dataset" where
  "xd xdas cds ats =
     bind_err (map_err (\<lambda>kv. bind_err (coord_variable (fst kv) (snd kv)) (\<lambda>v. Inr (fst kv, v))) cds)
       (\<lambda>cvars.
          if \<exists>k \<in> set (map fst xdas). k \<in> set (map fst cvars) then Inl ValueError
          else bind_err (dim_sizes (xdas @ cvars) [])
                 (\<lambda>sizes. Inr \<lparr>data_vars = xdas, ds_coords = cvars, ds_attrs = ats, ds_chunks = []\<rparr>))"

text \<open>\<^verbatim>\<open>xds.dims\<close>: the names of the dimensions of all variables and coordinates.\<close>

definition ds_dims :: "dataset \<Rightarrow> string list" where
  "ds_dims ds = remdups (concat (map (\<lambda>kv. da_dims (snd kv)) (data_vars ds @ ds_coords ds)))"

text \<open>\<^verbatim>\<open>xds.chunk(chunking)\<close>: ValueError when a key is not a dimension.\<close>

definition chunk :: "(string \<times> int) list \<Rightarrow> dataset \<Rightarrow> pyerror + dataset" where
  "chunk chunking ds =
     (if \<forall>k \<in> set (map fst chunking). k \<in> set (ds_dims ds) then Inr (ds\<lparr>ds_chunks := chunking\<rparr>)
      else Inl ValueError)"

text \<open>
  \<^verbatim>\<open>v.transpose(*order)\<close> on one variable: \<open>order\<close> must be a permutation of its
  dimensions; the element at a named position is unchanged.
\<close>

definition index_of :: "'a list \<Rightarrow> 'a \<Rightarrow> nat" where
  "index_of xs x = length (takeWhile (\<lambda>y. y \<noteq> x) xs)"

definition transpose_da :: "string list \<Rightarrow> dataarray \<Rightarrow> pyerror + dataarray" where
  "transpose_da order v =
     (if distinct order \<and> distinct (da_dims v) \<and> set order = set (da_dims v) then
        Inr \<lparr>da_dims = order,
             da_data =
               tabulate (map (\<lambda>d. shape (da_data v) ! index_of (da_dims v) d) order)
                 (\<lambda>idx. item (da_data v) (map (\<lambda>d. idx ! index_of order d) (da_dims v)))\<rparr>
      else Inl ValueError)"

text \<open>
  \<^verbatim>\<open>xds.transpose(*order)\<close>: ValueError unless \<open>order\<close> names exactly the dimensions of
  the dataset; every variable and coordinate is transposed to the order of those of its
  dimensions.
\<close>

definition transpose_entry :: "string list \<Rightarrow> string \<times> dataarray \<Rightarrow> pyerror + string \<times> dataarray" where
  "transpose_entry order kv =
     bind_err (transpose_da (filter (\<lambda>d. d \<in> set (da_dims (snd kv))) order) (snd kv))
       (\<lambda>v. Inr (fst kv, v))"

definition transpose_ds :: "string list \<Rightarrow> dataset \<Rightarrow> pyerror + dataset" where
  "transpose_ds order ds =
     (if set order \<noteq> set (ds_dims ds) then Inl ValueError
      else bind_err (map_err (transpose_entry order) (data_vars ds)) (\<lambda>vs.
           bind_err (map_err (transpose_entry order) (ds_coords ds)) (\<lambda>cs.
           Inr (ds\<lparr>data_vars := vs, ds_coords := cs\<rparr>))))"

text \<open>Joining two arrays along axis \<open>ax\<close>.\<close>

definition concat_nd :: "nat \<Rightarrow> 'a ndarray \<Rightarrow> 'a ndarray \<Rightarrow> 'a ndarray" where
  "concat_nd ax a b =
     tabulate ((shape a)[ax := shape a ! ax + shape b ! ax])
       (\<lambda>idx. if idx ! ax < shape a ! ax then item a idx
              else item b (idx[ax := idx ! ax - shape a ! ax]))"

text \<open>
  Appending one variable along dimension \<open>dm\<close>: a variable that the store has and that
  has the dimension is joined to the stored one (ValueError when the dimensions or the
  other extents differ); any other variable is written as it is.
\<close>

definition append_var :: "string \<Rightarrow> (string \<times> dataarray) list \<Rightarrow> string \<times> dataarray \<Rightarrow> pyerror + string \<times> dataarray" where
  "append_var dm stored kv =
     (case map_of stored (fst kv) of
        None \<Rightarrow> Inr kv
      | Some old \<Rightarrow>
          if dm \<in> set (da_dims (snd kv)) then
            (let ax = index_of (da_dims (snd kv)) dm;
                 so = shape (da_data old);
                 sn = shape (da_data (snd kv))
             in if da_dims old = da_dims (snd kv) \<and> length so = length sn \<and> so[ax := 0] = sn[ax := 0]
                then Inr (fst kv, \<lparr>da_dims = da_dims old, da_data = concat_nd ax (da_data old) (da_data (snd kv))\<rparr>)
                else Inl ValueError)
          else Inr kv)"

definition append_ds :: "string \<Rightarrow> dataset \<Rightarrow> dataset \<Rightarrow> pyerror + dataset" where
  "append_ds dm stored xds =
     bind_err (map_err (append_var dm (data_vars stored)) (data_vars xds)) (\<lambda>vs.
     bind_err (map_err (append_var dm (ds_coords stored)) (ds_coords xds)) (\<lambda>cs.
     Inr \<lparr>data_vars = dict_update (data_vars stored) vs,
          ds_coords = dict_update (ds_coords stored) cs,
          ds_attrs = ds_attrs xds,
          ds_chunks = ds_chunks stored\<rparr>))"

text \<open>
  The disk maps a path to what is stored there: a legacy image, a destination store or
  something else. Paths are compared as strings, so every file is taken to have one
  spelling. A path \<^verbatim>\<open>p/q\<close> lies below the path \<^verbatim>\<open>p\<close>.
\<close>

datatype entry = LegacyImage legacy_image | ZarrStore dataset | OtherFile

type_synonym disk = "string \<Rightarrow> entry option"

text \<open>\<^verbatim>\<open>IA.open(path)\<close>: RuntimeError unless the path holds a legacy image.\<close>

definition ia_open :: "disk \<Rightarrow> string \<Rightarrow> pyerror + legacy_image" where
  "ia_open dk p = (case dk p of Some (LegacyImage img) \<Rightarrow> Inr img | _ \<Rightarrow> Inl RuntimeError)"

text \<open>\<^verbatim>\<open>xds.to_zarr(outfile, mode='w', ...)\<close> creates the store.\<close>

definition to_zarr_w :: "disk \<Rightarrow> string \<Rightarrow> dataset \<Rightarrow> disk" where
  "to_zarr_w dk out xds = dk(out \<mapsto> ZarrStore xds)"

text \<open>\<^verbatim>\<open>xds.to_zarr(outfile, mode='a', append_dim='chan')\<close> appends to the store.\<close>

definition to_zarr_a :: "disk \<Rightarrow> string \<Rightarrow> dataset \<Rightarrow> pyerror + disk" where
  "to_zarr_a dk out xds =
     (case dk out of
        None \<Rightarrow> Inr (dk(out \<mapsto> ZarrStore xds))
      | Some (ZarrStore stored) \<Rightarrow>
          bind_err (append_ds ''chan'' stored xds) (\<lambda>ds. Inr (dk(out \<mapsto> ZarrStore ds)))
      | Some other \<Rightarrow> Inl ValueError)"

text \<open>\<^verbatim>\<open>xarray.open_zarr(outfile)\<close>\<close>

definition open_zarr :: "disk \<Rightarrow> string \<Rightarrow> pyerror + dataset" where
  "open_zarr dk out = (case dk out of Some (ZarrStore ds) \<Rightarrow> Inr ds | _ \<Rightarrow> Inl ValueError)"

section \<open>Artifact Compatibility Partitioner (lines 85-150)\<close>

definition default_imtypes :: "string list" where
  "default_imtypes = [''image.pbcor'', ''mask'', ''model'', ''pb'', ''psf'', ''residual'', ''sumwt'', ''weight'']"

text \<open>Lines 85-89.\<close>

definition candidates :: "string \<Rightarrow> string list option \<Rightarrow> string list" where
  "candidates suffix artifacts =
     (case artifacts of
        None \<Rightarrow> if suffix \<notin> set default_imtypes then suffix # default_imtypes else default_imtypes
      | Some arts \<Rightarrow> suffix # arts)"

text \<open>
  Line 143, \<^verbatim>\<open>np.any(meta['dsize'] != np.array(summary['shape']))\<close>: numpy compares two
  shapes of the same length element by element and broadcasts a shape of length one
  against the other; for two shapes that cannot be broadcast the comparison as a whole
  is \<open>True\<close> (numpy before 1.25).
\<close>

definition np_any_ne :: "nat list \<Rightarrow> nat list \<Rightarrow> bool" where
  "np_any_ne a b =
     (if length a = length b then a \<noteq> b
      else if length a = 1 then (\<exists>x \<in> set b. x \<noteq> hd a)
      else if length b = 1 then (\<exists>x \<in> set a. x \<noteq> hd b)
      else True)"

text \<open>
  One iteration of the loop of lines 91-150 for \<open>imtype\<close>. The state is \<open>meta\<close> (\<open>None\<close>
  for the empty dictionary), \<open>diftypes\<close> and \<open>imtypes\<close>. The list \<open>difmeta\<close> is never read
  and is left out.
\<close>

type_synonym partition = "metadata option \<times> string list \<times> string list"

definition partition_step :: "disk \<Rightarrow> string \<Rightarrow> string \<Rightarrow> partition \<Rightarrow> pyerror + partition" where
  "partition_step dk prefix imtype st =
     (case st of (meta, diftypes, imtypes) \<Rightarrow>
        if dk (prefix @ ''.'' @ imtype) \<noteq> None then
          bind_err (ia_open dk (prefix @ ''.'' @ imtype)) (\<lambda>img.
          bind_err (read_metadata img) (\<lambda>tm.
            case meta of
              None \<Rightarrow> Inr (Some tm, diftypes, imtypes)
            | Some m \<Rightarrow>
                if np_any_ne (dsize m) (shape (pixels img)) \<and> imtype \<noteq> ''sumwt''
                then Inr (meta, diftypes @ [imtype], filter (\<lambda>x. x \<noteq> imtype) imtypes)
                else Inr (meta, diftypes, imtypes)))
        else Inr (meta, diftypes, filter (\<lambda>x. x \<noteq> imtype) imtypes))"

text \<open>
  The loop runs over the list that \<open>imtypes\<close> named when it started; the assignments to
  \<open>imtypes\<close> inside the loop bind new lists and do not change what is iterated.
\<close>

fun partition_loop :: "disk \<Rightarrow> string \<Rightarrow> string list \<Rightarrow> partition \<Rightarrow> pyerror + partition" where
  "partition_loop dk prefix [] st = Inr st"
| "partition_loop dk prefix (imtype # rest) st =
     bind_err (partition_step dk prefix imtype st) (partition_loop dk prefix rest)"

definition partition_artifacts :: "disk \<Rightarrow> string \<Rightarrow> string list \<Rightarrow> pyerror + partition" where
  "partition_artifacts dk prefix imtypes = partition_loop dk prefix imtypes (None, [], imtypes)"

section \<open>Channel Batch Writer (lines 157-199)\<close>

text \<open>
  The chunk shape is a Python sequence: a tuple (the default, and what the docstring
  asks for) or a list. Line 159 assigns to its element 3 when that element is not
  positive; assigning to an element of a tuple raises TypeError.
\<close>

datatype pyseq = PyTuple "int list" | PyList "int list"

definition fix_chunk_shape :: "pyseq \<Rightarrow> nat \<Rightarrow> pyerror + int list" where
  "fix_chunk_shape chunk_shape n =
     (case chunk_shape of
        PyTuple cs \<Rightarrow>
          if length cs \<le> 3 then Inl IndexError
          else if cs ! 3 \<le> 0 then Inl TypeError
          else Inr cs
      | PyList cs \<Rightarrow>
          if length cs \<le> 3 then Inl IndexError
          else if cs ! 3 \<le> 0 then Inr (cs[3 := int n])
          else Inr cs)"

text \<open>\<^verbatim>\<open>range(0, n, step)\<close>: ValueError for a zero step, empty for a negative one.\<close>

definition py_range :: "nat \<Rightarrow> int \<Rightarrow> pyerror + nat list" where
  "py_range n step =
     (if step = 0 then Inl ValueError
      else if step < 0 then Inr []
      else Inr (map (\<lambda>i. i * nat step) [0..<(n + nat step - 1) div nat step]))"

text \<open>
  Lines 168-186 for one artifact: read the chunk, shape it, store it in \<open>xdas\<close>, and
  store the validity mask under \<^verbatim>\<open>'mask'\<close> when the artifact has one.
\<close>

definition read_artifact ::
  "disk \<Rightarrow> string \<Rightarrow> metadata \<Rightarrow> int list \<Rightarrow> int list \<Rightarrow> string
     \<Rightarrow> (string \<times> dataarray) list \<Rightarrow> pyerror + (string \<times> dataarray) list" where
  "read_artifact dk prefix meta pt1 pt2 imtype0 xdas =
     bind_err (ia_open dk (prefix @ ''.'' @ imtype0)) (\<lambda>img.
     let imchunk = getchunk img pt1 pt2;
         imtype = (if imtype0 = ''fits'' then ''image'' else imtype0)
     in bind_err
          (if imtype = ''mask'' then
             bind_err (xa (astype_bool imchunk) (dims meta)) (\<lambda>v.
             Inr (AList.update ''deconvolve'' v xdas))
           else if imtype = ''sumwt'' then
             bind_err (nth_err (shape imchunk) 2) (\<lambda>n.
             bind_err (reshape [n, 1] (as_float imchunk)) (\<lambda>r.
             bind_err (xa r [''pol'', ''chan'']) (\<lambda>v.
             Inr (AList.update imtype v xdas))))
           else
             bind_err (xa (as_float imchunk) (dims meta)) (\<lambda>v.
             Inr (AList.update imtype v xdas)))
          (\<lambda>xdas1.
             if length (masks img) > 0 then
               bind_err (xa (as_mask (getchunk_mask img pt1 pt2)) (dims meta)) (\<lambda>v.
               Inr (AList.update ''mask'' v xdas1))
             else Inr xdas1))"

text \<open>Lines 166-186: the loop over the compatible artifacts.\<close>

fun read_artifacts ::
  "disk \<Rightarrow> string \<Rightarrow> metadata \<Rightarrow> int list \<Rightarrow> int list \<Rightarrow> string list
     \<Rightarrow> (string \<times> dataarray) list \<Rightarrow> pyerror + (string \<times> dataarray) list" where
  "read_artifacts dk prefix meta pt1 pt2 [] xdas = Inr xdas"
| "read_artifacts dk prefix meta pt1 pt2 (imtype # rest) xdas =
     bind_err (read_artifact dk prefix meta pt1 pt2 imtype xdas)
       (read_artifacts dk prefix meta pt1 pt2 rest)"

text \<open>Line 188; reading an element that the chunk shape does not have raises IndexError.\<close>

definition chunking_of :: "string list \<Rightarrow> int list \<Rightarrow> pyerror + (string \<times> int) list" where
  "chunking_of ds cs =
     (if length cs < length ds then Inl IndexError
      else Inr (dict_of (map (\<lambda>ii. (ds ! ii, cs ! ii)) (filter (\<lambda>ii. cs ! ii > 0) [0..<length ds]))))"

text \<open>
  Line 192. \<^verbatim>\<open>xds.image\<close> raises AttributeError when the dataset has no variable
  \<^verbatim>\<open>'image'\<close>.
\<close>

definition reorder :: "dataset \<Rightarrow> pyerror + dataset" where
  "reorder xds =
     (if ''pol'' \<in> set (ds_dims xds) then
        bind_err (case map_of (data_vars xds) ''image'' of
                    None \<Rightarrow> Inl AttributeError | Some v \<Rightarrow> Inr v) (\<lambda>image.
        bind_err (nth_err (da_dims image) 0) (\<lambda>a0.
        bind_err (nth_err (da_dims image) 1) (\<lambda>a1.
        transpose_ds [a0, a1, ''chan'', ''pol''] xds)))
      else Inr xds)"

text \<open>Lines 163-165: the corners of the batch and its coordinates.\<close>

definition batch_pt1 :: "metadata \<Rightarrow> nat \<Rightarrow> nat \<Rightarrow> int list" where
  "batch_pt1 meta chan_dim chan = (replicate (length (dsize meta)) (- 1))[chan_dim := int chan]"

definition batch_pt2 :: "metadata \<Rightarrow> nat \<Rightarrow> nat \<Rightarrow> nat \<Rightarrow> int list" where
  "batch_pt2 meta chan_dim chan chan_batch =
     (replicate (length (dsize meta)) (- 1))[chan_dim := int chan + int chan_batch - 1]"

definition chunk_coords_of :: "metadata \<Rightarrow> nat \<Rightarrow> nat \<Rightarrow> (string \<times> coord) list" where
  "chunk_coords_of meta chan chan_batch =
     AList.update ''chan'' (Bare (arange_from chan_batch chan)) (coords meta)"

text \<open>Lines 162-192: the record of the batch that starts at channel \<open>chan\<close>.\<close>

definition batch_record ::
  "disk \<Rightarrow> string \<Rightarrow> metadata \<Rightarrow> string list \<Rightarrow> int list \<Rightarrow> nat \<Rightarrow> nat \<Rightarrow> nat \<Rightarrow> pyerror + dataset" where
  "batch_record dk prefix meta imtypes cs chan_dim chan_batch chan =
     bind_err (read_artifacts dk prefix meta (batch_pt1 meta chan_dim chan)
                 (batch_pt2 meta chan_dim chan chan_batch) imtypes []) (\<lambda>xdas.
     bind_err (chunking_of (dims meta) cs) (\<lambda>chunking.
     bind_err (xd xdas (chunk_coords_of meta chan chan_batch) (attrs meta)) (\<lambda>xds0.
     bind_err (chunk chunking xds0) reorder)))"

text \<open>
  What \<open>convert_image\<close> returns: a dataset, or the empty list that \<open>xds\<close> is bound to
  before the first batch.
\<close>

datatype retval = RDataset dataset | REmptyList

text \<open>
  Lines 161-199: the loop over the batches, with the disk as state. The compressor only
  selects the codec of the stored bytes and is left out.
\<close>

fun write_batches ::
  "string \<Rightarrow> string \<Rightarrow> metadata \<Rightarrow> string list \<Rightarrow> int list \<Rightarrow> nat \<Rightarrow> nat \<Rightarrow> bool
     \<Rightarrow> nat list \<Rightarrow> retval \<Rightarrow> disk \<Rightarrow> (pyerror + retval) \<times> disk" where
  "write_batches prefix out meta imtypes cs chan_dim chan_batch nofile [] xds dk = (Inr xds, dk)"
| "write_batches prefix out meta imtypes cs chan_dim chan_batch nofile (chan # rest) xds dk =
     (case batch_record dk prefix meta imtypes cs chan_dim chan_batch chan of
        Inl e \<Rightarrow> (Inl e, dk)
      | Inr x \<Rightarrow>
          if chan = 0 \<and> \<not> nofile then
            write_batches prefix out meta imtypes cs chan_dim chan_batch nofile rest (RDataset x)
              (to_zarr_w dk out x)
          else if \<not> nofile then
            (case to_zarr_a dk out x of
               Inl e \<Rightarrow> (Inl e, dk)
             | Inr dk' \<Rightarrow>
                 write_batches prefix out meta imtypes cs chan_dim chan_batch nofile rest (RDataset x) dk')
          else
            write_batches prefix out meta imtypes cs chan_dim chan_batch nofile rest (RDataset x) dk)"

text \<open>Lines 157-206. Reading \<^verbatim>\<open>meta['dsize']\<close> of the empty \<open>meta\<close> raises KeyError.\<close>

definition write_artifacts ::
  "disk \<Rightarrow> string \<Rightarrow> string \<Rightarrow> metadata option \<Rightarrow> string list \<Rightarrow> pyseq \<Rightarrow> bool
     \<Rightarrow> (pyerror + retval) \<times> disk" where
  "write_artifacts dk prefix out meta imtypes chunk_shape nofile =
     (case meta of
        None \<Rightarrow> (Inl KeyError, dk)
      | Some m \<Rightarrow>
          (case list_index (dims m) ''chan'' of
             Inl e \<Rightarrow> (Inl e, dk)
           | Inr chan_dim \<Rightarrow>
               (case fix_chunk_shape chunk_shape (dsize m ! chan_dim) of
                  Inl e \<Rightarrow> (Inl e, dk)
                | Inr cs \<Rightarrow>
                    (let chan_batch = (if nofile then int (dsize m ! chan_dim) else cs ! 3)
                     in case py_range (dsize m ! chan_dim) chan_batch of
                          Inl e \<Rightarrow> (Inl e, dk)
                        | Inr chans \<Rightarrow>
                            (case write_batches prefix out m imtypes cs chan_dim (nat chan_batch)
                                    nofile chans REmptyList dk of
                               (Inl e, dk') \<Rightarrow> (Inl e, dk')
                             | (Inr xds, dk') \<Rightarrow>
                                 if \<not> nofile then
                                   (case open_zarr dk' out of
                                      Inl e \<Rightarrow> (Inl e, dk')
                                    | Inr ds \<Rightarrow> (Inr (RDataset ds), dk'))
                                 else (Inr xds, dk'))))))"

section \<open>Pipeline Driver (lines 59-73 and the whole function)\<close>

text \<open>
  What \<^verbatim>\<open>os.path.expanduser\<close> reads from the operating system: the home directory of the
  current user (the variable \<^verbatim>\<open>HOME\<close>, else the user's entry in the password database;
  \<open>None\<close> when there is neither) and the home directories of the users that the password
  database knows by name.
\<close>

record osenv =
  home_dir :: "string option"
  pw_dir :: "string \<Rightarrow> string option"

text \<open>
  \<^verbatim>\<open>os.path.expanduser(path)\<close>: a path that does not start with \<^verbatim>\<open>~\<close> is returned as it
  is. Otherwise the text between the \<^verbatim>\<open>~\<close> and the first slash names the user, the
  current one when it is empty; a user without a home directory leaves the path as it
  is; else the home directory, without its trailing slashes, replaces the \<^verbatim>\<open>~\<close> and the
  name, and an empty result is \<^verbatim>\<open>/\<close>.
\<close>

definition expanduser :: "osenv \<Rightarrow> string \<Rightarrow> string" where
  "expanduser env path =
     (if \<not> startswith path ''~'' then path
      else
        (let name = takeWhile (\<lambda>c. c \<noteq> CHR ''/'') (tl path);
             rest = dropWhile (\<lambda>c. c \<noteq> CHR ''/'') (tl path)
         in case (if name = [] then home_dir env else pw_dir env name) of
              None \<Rightarrow> path
            | Some userhome \<Rightarrow>
                (if strip_slashes userhome @ rest = [] then ''/'' else strip_slashes userhome @ rest)))"

text \<open>Lines 59-70: the prefix and suffix of the input path and the output path.\<close>

definition derive_paths :: "osenv \<Rightarrow> string \<Rightarrow> string option \<Rightarrow> pyerror + string \<times> string \<times> string" where
  "derive_paths env infile0 outfile =
     (let infile = expanduser env infile0
      in bind_err (rindex infile (CHR ''.'')) (\<lambda>i.
         Inr (take i infile,
              strip_slashes (drop (i + 1) infile),
              (case outfile of None \<Rightarrow> take i infile @ ''.img.zarr'' | Some p \<Rightarrow> expanduser env p))))"

text \<open>
  Lines 72-73: \<^verbatim>\<open>if not nofile: os.system("rm -fr " + outfile)\<close>. The output path reaches
  the shell unquoted, as the rest of a command line. \<open>remove_output\<close> is the effect of the
  command for an output path that the shell hands to \<^verbatim>\<open>rm\<close> as one operand, the path
  itself: \<^verbatim>\<open>rm -fr\<close> then removes what the path names together with everything below it
  and does nothing when the path names nothing. \<open>plain_path\<close> describes such output
  paths: not empty, made of letters, digits, dots, underscores, hyphens and slashes only
  (no blank and no character that the shell interprets), not starting with a hyphen (it
  would be read as an option), and with no component that is empty, \<^verbatim>\<open>.\<close> or \<^verbatim>\<open>..\<close>.
  For any other output path the command line is not modelled.
\<close>

definition at_or_below :: "string \<Rightarrow> string \<Rightarrow> bool" where
  "at_or_below out p = (p = out \<or> startswith p (out @ ''/''))"

definition remove_output :: "bool \<Rightarrow> string \<Rightarrow> disk \<Rightarrow> disk" where
  "remove_output nofile out dk =
     (if \<not> nofile then (\<lambda>p. if at_or_below out p then None else dk p) else dk)"




text \<open>
  \<open>convert_image\<close> returns its result or the exception it raises, and the disk as it
  leaves it.
\<close>

definition convert_image ::
  "osenv \<Rightarrow> string \<Rightarrow> string option \<Rightarrow> string list option \<Rightarrow> pyseq \<Rightarrow> bool \<Rightarrow> disk
     \<Rightarrow> (pyerror + retval) \<times> disk" where
  "convert_image env infile outfile artifacts chunk_shape nofile dk =
     (case derive_paths env infile outfile of
        Inl e \<Rightarrow> (Inl e, dk)
      | Inr (prefix, suffix, out) \<Rightarrow>
          (let dk1 = remove_output nofile out dk
           in case partition_artifacts dk1 prefix (candidates suffix artifacts) of
                Inl e \<Rightarrow> (Inl e, dk1)
              | Inr (meta, diftypes, imtypes) \<Rightarrow>
                  write_artifacts dk1 prefix out meta imtypes chunk_shape nofile))"

section \<open>Concrete disks used in the examples\<close>

text \<open>
  An environment in which the current user \<^verbatim>\<open>u\<close> has the home directory \<^verbatim>\<open>/home/u\<close>.
\<close>

definition env_u :: osenv where
  "env_u = \<lparr>home_dir = Some ''/home/u'',
            pw_dir = (\<lambda>name. if name = ''u'' then Some ''/home/u'' else None)\<rparr>"


text \<open>
  A five-channel image with one polarization, and a disk that holds it as \<^verbatim>\<open>x.image\<close>;
  \<open>meta5\<close> is the metadata read from it.
\<close>

definition img5 :: legacy_image where
  "img5 = \<lparr>axisnames = [''Right Ascension'', ''Declination'', ''Stokes'', ''Frequency''],
           axisunits = [''rad'', ''rad'', '''', ''Hz''],
           pixels = \<lparr>shape = [1, 1, 1, 5], data = [10, 11, 12, 13, 14]\<rparr>,
           pixelmask = \<lparr>shape = [1, 1, 1, 5], data = [True, True, True, True, True]\<rparr>,
           masks = [],
           messages = [''Telescope : VLA''],
           others = [],
           toworld = (\<lambda>p. [p ! 0, p ! 1, p ! 2, 100 + p ! 3])\<rparr>"

definition meta5 :: metadata where
  "meta5 = \<lparr>coords =
        [(''right_ascension'', Dimmed [''d0'', ''d1''] \<lparr>shape = [1, 1], data = [F 0]\<rparr>),
         (''declination'', Dimmed [''d0'', ''d1''] \<lparr>shape = [1, 1], data = [F 0]\<rparr>),
         (''pol'', Bare \<lparr>shape = [1], data = [F 0]\<rparr>),
         (''chan'', Bare \<lparr>shape = [5], data = [F 100, F 101, F 102, F 103, F 104]\<rparr>)],
      dsize = [1, 1, 1, 5],
      dims = [''d0'', ''d1'', ''pol'', ''chan''],
      attrs = [(''axisunits'', SList [SStr ''rad'', SStr ''rad'', SStr [], SStr ''Hz'']),
               (''telescope'', SStr ''vla'')]\<rparr>"

definition dk5 :: disk where
  "dk5 = [''x.image'' \<mapsto> LegacyImage img5]"





text \<open>Every variable that the artifact loop stores has the reference dimensions, or is
  the sum-of-weights variable with its two dimensions.\<close>

definition var_ok :: "metadata \<Rightarrow> string \<times> dataarray \<Rightarrow> bool" where
  "var_ok meta kv =
     (da_dims (snd kv) = dims meta \<or> (fst kv = ''sumwt'' \<and> da_dims (snd kv) = [''pol'', ''chan'']))"

text \<open>The variable that line 174 stores for the mask artifact \<open>img\<close>.\<close>

definition mask_var :: "metadata \<Rightarrow> legacy_image \<Rightarrow> int list \<Rightarrow> int list \<Rightarrow> dataarray" where
  "mask_var meta img pt1 pt2 = \<lparr>da_dims = dims meta, da_data = astype_bool (getchunk img pt1 pt2)\<rparr>"

definition mask5 :: legacy_image where
  "mask5 = \<lparr>axisnames = [''Right Ascension'', ''Declination'', ''Stokes'', ''Frequency''],
           axisunits = [''rad'', ''rad'', [], ''Hz''],
           pixels = \<lparr>shape = [1, 1, 1, 5], data = [0, 1, 1, 0, 2]\<rparr>,
           pixelmask = \<lparr>shape = [1, 1, 1, 5], data = [True, True, True, True, True]\<rparr>,
           masks = [],
           messages = [],
           others = [],
           toworld = (\<lambda>p. [p ! 0, p ! 1, p ! 2, 100 + p ! 3])\<rparr>"

definition sumwt5 :: legacy_image where
  "sumwt5 = \<lparr>axisnames = [''Right Ascension'', ''Declination'', ''Stokes'', ''Frequency''],
           axisunits = [''rad'', ''rad'', [], ''Hz''],
           pixels = \<lparr>shape = [1, 1, 1, 5], data = [7, 7, 7, 7, 7]\<rparr>,
           pixelmask = \<lparr>shape = [1, 1, 1, 5], data = [True, True, True, True, True]\<rparr>,
           masks = [],
           messages = [],
           others = [],
           toworld = (\<lambda>p. [p ! 0, p ! 1, p ! 2, 100 + p ! 3])\<rparr>"

definition dk5s :: disk where
  "dk5s = [''x.image'' \<mapsto> LegacyImage img5, ''x.mask'' \<mapsto> LegacyImage mask5,
           ''x.sumwt'' \<mapsto> LegacyImage sumwt5]"

definition xds5 :: dataset where
  "xds5 = \<lparr>data_vars =
        [(''image'',
          \<lparr>da_dims = [''d0'', ''d1'', ''chan'', ''pol''],
             da_data = \<lparr>shape = [1, 1, 1, 1], data = [F 11]\<rparr>\<rparr>),
         (''deconvolve'',
          \<lparr>da_dims = [''d0'', ''d1'', ''chan'', ''pol''],
             da_data = \<lparr>shape = [1, 1, 1, 1], data = [B True]\<rparr>\<rparr>),
         (''sumwt'',
          \<lparr>da_dims = [''chan'', ''pol''],
             da_data = \<lparr>shape = [1, 1], data = [F 7]\<rparr>\<rparr>)],
        ds_coords =
          [(''right_ascension'',
            \<lparr>da_dims = [''d0'', ''d1''],
               da_data = \<lparr>shape = [1, 1], data = [F 0]\<rparr>\<rparr>),
           (''declination'',
            \<lparr>da_dims = [''d0'', ''d1''],
               da_data = \<lparr>shape = [1, 1], data = [F 0]\<rparr>\<rparr>),
           (''pol'',
            \<lparr>da_dims = [''pol''], da_data = \<lparr>shape = [1], data = [F 0]\<rparr>\<rparr>),
           (''chan'',
            \<lparr>da_dims = [''chan''], da_data = \<lparr>shape = [1], data = [I 1]\<rparr>\<rparr>)],
        ds_attrs =
          [(''axisunits'', SList [SStr ''rad'', SStr ''rad'', SStr [], SStr ''Hz'']),
           (''telescope'', SStr ''vla'')],
        ds_chunks = [(''pol'', 1), (''chan'', 1)]\<rparr>"

text \<open>
  A four-axis image with two pixels on every axis, a one-axis model of two pixels, and a
  disk that holds both; \<open>metaq\<close> is the metadata read from the image.
\<close>

definition imgq :: legacy_image where
  "imgq = \<lparr>axisnames = [''Right Ascension'', ''Declination'', ''Stokes'', ''Frequency''],
           axisunits = [''rad'', ''rad'', [], ''Hz''],
           pixels = \<lparr>shape = [2, 2, 2, 2], data = [0, 1, 2, 3, 4, 5, 6, 7, 8, 9, 10, 11, 12, 13, 14, 15]\<rparr>,
           pixelmask = \<lparr>shape = [2, 2, 2, 2], data = replicate 16 True\<rparr>,
           masks = [],
           messages = [],
           others = [],
           toworld = (\<lambda>p. [p ! 0 + p ! 1 / 2, p ! 1, 1 + p ! 2, 100 + p ! 3])\<rparr>"

definition metaq :: metadata where
  "metaq = \<lparr>coords =
        [(''right_ascension'',
          Dimmed [''d0'', ''d1''] \<lparr>shape = [2, 2], data = [F 0, F (1 / 2), F 1, F (3 / 2)]\<rparr>),
         (''declination'',
          Dimmed [''d0'', ''d1''] \<lparr>shape = [2, 2], data = [F 0, F 1, F 0, F 1]\<rparr>),
         (''pol'', Bare \<lparr>shape = [1], data = [F 1]\<rparr>),
         (''chan'', Bare \<lparr>shape = [2], data = [F 100, F 101]\<rparr>)],
      dsize = [2, 2, 2, 2],
      dims = [''d0'', ''d1'', ''pol'', ''chan''],
      attrs = [(''axisunits'', SList [SStr ''rad'', SStr ''rad'', SStr [], SStr ''Hz''])]\<rparr>"

definition model1 :: legacy_image where
  "model1 = \<lparr>axisnames = [''Right Ascension''],
           axisunits = [''rad''],
           pixels = \<lparr>shape = [2], data = [0, 1]\<rparr>,
           pixelmask = \<lparr>shape = [2], data = [True, True]\<rparr>,
           masks = [],
           messages = [],
           others = [],
           toworld = (\<lambda>p. [p ! 0])\<rparr>"

definition dkq :: disk where
  "dkq = [''x.image'' \<mapsto> LegacyImage imgq, ''x.model'' \<mapsto> LegacyImage model1]"

text \<open>
  The coordinate of a cartesian axis in the words of the specification: the world
  coordinate of axis \<open>dd\<close> along the sweep of its own pixel indices, with every other axis
  at pixel 0, as a vector of the length of the axis.
\<close>

definition spec_cart_coord :: "(real list \<Rightarrow> real list) \<Rightarrow> nat list \<Rightarrow> nat \<Rightarrow> cell ndarray" where
  "spec_cart_coord tw ims dd =
     \<lparr>shape = [ims ! dd],
      data = map (\<lambda>i. F (tw (map real ((replicate (length ims) 0)[dd := i])) ! dd)) [0..<ims ! dd]\<rparr>"

text \<open>
  The channel coordinate of a batch in the words of the specification: the reference
  channel coordinate, re-sliced to the range of the batch.
\<close>

definition spec_chan_coord :: "metadata \<Rightarrow> nat \<Rightarrow> nat \<Rightarrow> coord option" where
  "spec_chan_coord meta chan chan_batch =
     (case map_of (coords meta) ''chan'' of
        Some (Bare a) \<Rightarrow>
          Some (Bare \<lparr>shape = [length (take chan_batch (drop chan (data a)))],
                      data = take chan_batch (drop chan (data a))\<rparr>)
      | other \<Rightarrow> other)"

text \<open>The shape of a variable in the store at a path.\<close>

definition stored_shape :: "disk \<Rightarrow> string \<Rightarrow> string \<Rightarrow> nat list option" where
  "stored_shape dk out name =
     (case dk out of
        Some (ZarrStore s) \<Rightarrow> map_option (\<lambda>v. shape (da_data v)) (map_of (data_vars s) name)
      | _ \<Rightarrow> None)"

text \<open>A variable is well formed when it has one dimension name per axis.\<close>

definition var_wf :: "string \<times> dataarray \<Rightarrow> bool" where
  "var_wf kv = (length (da_dims (snd kv)) = length (shape (da_data (snd kv))))"

section \<open>Verified properties\<close>

subsection \<open>Sequencing\<close>

lemma bind_err_Inr:
  "bind_err m f = Inr y \<Longrightarrow> \<exists>x. m = Inr x \<and> f x = Inr y"
  by (cases m) (simp_all add: bind_err_def)

lemma bind_err_simps [simp]:
  "bind_err (Inl e) f = Inl e" "bind_err (Inr x) f = f x"
  by (simp_all add: bind_err_def)

subsection \<open>Metadata Normalizer: messages\<close>

lemma split_on_notin: "c \<notin> set s \<Longrightarrow> split_on c s = [s]"
  by (induction s) auto



















subsection \<open>Pipeline Driver: no artifact on disk\<close>







subsection \<open>Channel Batch Writer: the sentinel of the chunk shape\<close>








subsection \<open>The attributes of the output\<close>














subsection \<open>Arrays: index vectors and tabulation\<close>

lemma ravel_less: "valid_index s idx \<Longrightarrow> ravel s idx < prod_list s"
  unfolding valid_index_def
proof (induction idx s rule: list_all2_induct)
  case Nil
  show ?case by simp
next
  case (Cons i idx n s)
  have "i * prod_list s + ravel s idx < Suc i * prod_list s"
    using Cons.IH by simp
  also have "\<dots> \<le> n * prod_list s"
    using Cons.hyps(1) by (intro mult_le_mono1) simp
  finally show ?case by simp
qed

lemma unravel_ravel: "valid_index s idx \<Longrightarrow> unravel s (ravel s idx) = idx"
  unfolding valid_index_def
proof (induction idx s rule: list_all2_induct)
  case Nil
  show ?case by simp
next
  case (Cons i idx n s)
  have r: "ravel s idx < prod_list s"
    using Cons.hyps(2) by (simp add: ravel_less valid_index_def)
  then show ?case
    using Cons.IH by simp
qed

lemma unravel_valid: "k < prod_list s \<Longrightarrow> valid_index s (unravel s k)"
  unfolding valid_index_def
proof (induction s arbitrary: k)
  case Nil
  show ?case by simp
next
  case (Cons n s)
  from Cons.prems have pos: "0 < prod_list s"
    by (cases "prod_list s = 0") simp_all
  from Cons.prems have "k div prod_list s < n"
    by (simp add: less_mult_imp_div_less)
  moreover have "k mod prod_list s < prod_list s"
    using pos by simp
  ultimately show ?case
    using Cons.IH by simp
qed

lemma item_tabulate: "valid_index s idx \<Longrightarrow> item (tabulate s f) idx = f idx"
  by (simp add: item_def tabulate_def ravel_less unravel_ravel)

lemma shape_tabulate [simp]: "shape (tabulate s f) = s"
  by (simp add: tabulate_def)

lemma set_data_tabulate: "set (data (tabulate s f)) = (\<lambda>k. f (unravel s k)) ` {..<prod_list s}"
  by (auto simp: tabulate_def)

lemma length_data_tabulate [simp]: "length (data (tabulate s f)) = prod_list s"
  by (simp add: tabulate_def)

subsection \<open>Channel Batch Writer: the order of the dimensions\<close>

lemma xa_dims: "xa a ds = Inr v \<Longrightarrow> da_dims v = ds \<and> da_data v = a"
  by (auto simp: xa_def split: if_splits)

lemma set_update_subset: "set (AList.update k v al) \<subseteq> insert (k, v) (set al)"
  by (induction al) auto

lemma read_artifact_var_ok:
  assumes "read_artifact dk prefix meta pt1 pt2 t xdas = Inr xdas'"
      and "\<forall>kv \<in> set xdas. var_ok meta kv"
  shows "\<forall>kv \<in> set xdas'. var_ok meta kv"
proof -
  from assms(1) obtain img xdas1 where
    first: "(if (if t = ''fits'' then ''image'' else t) = ''mask'' then
             bind_err (xa (astype_bool (getchunk img pt1 pt2)) (dims meta)) (\<lambda>v.
             Inr (AList.update ''deconvolve'' v xdas))
           else if (if t = ''fits'' then ''image'' else t) = ''sumwt'' then
             bind_err (nth_err (shape (getchunk img pt1 pt2)) 2) (\<lambda>n.
             bind_err (reshape [n, 1] (as_float (getchunk img pt1 pt2))) (\<lambda>r.
             bind_err (xa r [''pol'', ''chan'']) (\<lambda>v.
             Inr (AList.update (if t = ''fits'' then ''image'' else t) v xdas))))
           else
             bind_err (xa (as_float (getchunk img pt1 pt2)) (dims meta)) (\<lambda>v.
             Inr (AList.update (if t = ''fits'' then ''image'' else t) v xdas))) = Inr xdas1"
    and second: "(if length (masks img) > 0 then
               bind_err (xa (as_mask (getchunk_mask img pt1 pt2)) (dims meta)) (\<lambda>v.
               Inr (AList.update ''mask'' v xdas1))
             else Inr xdas1) = Inr xdas'"
    unfolding read_artifact_def Let_def by (auto dest!: bind_err_Inr)
  from first assms(2) have ok1: "\<forall>kv \<in> set xdas1. var_ok meta kv"
    using set_update_subset
    by (fastforce simp: var_ok_def dest!: bind_err_Inr xa_dims split: if_splits)
  from second ok1 show ?thesis
    using set_update_subset
    by (fastforce simp: var_ok_def dest!: bind_err_Inr xa_dims split: if_splits)
qed

lemma read_artifacts_var_ok:
  "read_artifacts dk prefix meta pt1 pt2 ts xdas = Inr xdas' \<Longrightarrow>
   \<forall>kv \<in> set xdas. var_ok meta kv \<Longrightarrow> \<forall>kv \<in> set xdas'. var_ok meta kv"
proof (induction ts arbitrary: xdas)
  case Nil
  then show ?case by simp
next
  case (Cons t ts)
  from Cons.prems(1) obtain x1 where
    a: "read_artifact dk prefix meta pt1 pt2 t xdas = Inr x1"
    and b: "read_artifacts dk prefix meta pt1 pt2 ts x1 = Inr xdas'"
    by (auto dest!: bind_err_Inr)
  from read_artifact_var_ok [OF a Cons.prems(2)] Cons.IH [OF b] show ?case by blast
qed

lemma map_err_set:
  "map_err f xs = Inr ys \<Longrightarrow> y \<in> set ys \<Longrightarrow> \<exists>x \<in> set xs. f x = Inr y"
proof (induction xs arbitrary: ys)
  case Nil
  then show ?case by simp
next
  case (Cons x xs)
  from Cons.prems(1) obtain y0 ys0 where
    "f x = Inr y0" "map_err f xs = Inr ys0" "ys = y0 # ys0"
    by (auto dest!: bind_err_Inr)
  with Cons.prems(2) Cons.IH show ?case by auto
qed

lemma map_err_all:
  "map_err f xs = Inr ys \<Longrightarrow> x \<in> set xs \<Longrightarrow> \<exists>y \<in> set ys. f x = Inr y"
proof (induction xs arbitrary: ys)
  case Nil
  then show ?case by simp
next
  case (Cons x0 xs)
  from Cons.prems(1) obtain y0 ys0 where
    "f x0 = Inr y0" "map_err f xs = Inr ys0" "ys = y0 # ys0"
    by (auto dest!: bind_err_Inr)
  with Cons.prems(2) Cons.IH show ?case by auto
qed

lemma transpose_entry_dims:
  "transpose_entry order (k, v) = Inr kv' \<Longrightarrow>
   da_dims (snd kv') = filter (\<lambda>d. d \<in> set (da_dims v)) order"
  by (auto simp: transpose_entry_def transpose_da_def dest!: bind_err_Inr split: if_splits)

lemma transpose_entry_distinct:
  "transpose_entry order (k, v) = Inr kv' \<Longrightarrow> distinct (da_dims (snd kv'))"
  by (auto simp: transpose_entry_def transpose_da_def dest!: bind_err_Inr split: if_splits)

lemma transpose_entry_key:
  "transpose_entry order (k, v) = Inr kv' \<Longrightarrow> fst kv' = k"
  by (auto simp: transpose_entry_def dest!: bind_err_Inr)

lemma filter_all_id: "\<forall>x \<in> set xs. P x \<Longrightarrow> filter P xs = xs"
  by (induction xs) auto

text \<open>
  C6. When the reference artifact has a polarization axis (and the channel axis that the
  writer needs), every variable of every assembled batch record has the dimensions
  \<open>[axis0, axis1, chan, pol]\<close>, where \<open>axis0\<close> and \<open>axis1\<close> are the first two native
  dimensions, or, for the sum-of-weights variable, \<open>[chan, pol]\<close>: the two trailing
  dimensions are always channel, then polarization.
\<close>

theorem batch_record_dim_order:
  assumes rec: "batch_record dk prefix meta imtypes cs chan_dim chan_batch chan = Inr xds"
      and pol: "''pol'' \<in> set (dims meta)"
      and chn: "''chan'' \<in> set (dims meta)"
  shows "\<forall>kv \<in> set (data_vars xds).
           da_dims (snd kv) = [dims meta ! 0, dims meta ! 1, ''chan'', ''pol'']
           \<or> da_dims (snd kv) = [''chan'', ''pol'']"
proof
  fix kv
  assume kv: "kv \<in> set (data_vars xds)"
  from rec obtain xdas chunking xds0 xds1 where
    ra: "read_artifacts dk prefix meta (batch_pt1 meta chan_dim chan)
           (batch_pt2 meta chan_dim chan chan_batch) imtypes [] = Inr xdas"
    and x0: "xd xdas (chunk_coords_of meta chan chan_batch) (attrs meta) = Inr xds0"
    and x1: "chunk chunking xds0 = Inr xds1"
    and ro: "reorder xds1 = Inr xds"
    unfolding batch_record_def by (auto dest!: bind_err_Inr)
  from read_artifacts_var_ok [OF ra] have ok: "\<forall>kv \<in> set xdas. var_ok meta kv" by simp
  from x0 have "data_vars xds0 = xdas"
    by (auto simp: xd_def dest!: bind_err_Inr split: if_splits)
  with x1 have dv: "data_vars xds1 = xdas"
    by (auto simp: chunk_def split: if_splits)
  have pol_in: "''pol'' \<in> set (ds_dims xds1)" if "xdas \<noteq> []"
  proof -
    from that obtain kv0 where k0: "kv0 \<in> set xdas" by (cases xdas) auto
    with ok pol have "''pol'' \<in> set (da_dims (snd kv0))"
      by (auto simp: var_ok_def)
    with k0 show ?thesis
      by (auto simp: ds_dims_def dv)
  qed
  show "da_dims (snd kv) = [dims meta ! 0, dims meta ! 1, ''chan'', ''pol'']
           \<or> da_dims (snd kv) = [''chan'', ''pol'']"
  proof (cases "''pol'' \<in> set (ds_dims xds1)")
    case False
    with ro have "xds = xds1" by (simp add: reorder_def)
    with kv dv pol_in False show ?thesis by (cases xdas) auto
  next
    case True
    with ro obtain image a0 a1 where
      im: "map_of (data_vars xds1) ''image'' = Some image"
      and a0: "nth_err (da_dims image) 0 = Inr a0"
      and a1: "nth_err (da_dims image) 1 = Inr a1"
      and tr: "transpose_ds [a0, a1, ''chan'', ''pol''] xds1 = Inr xds"
      by (auto simp: reorder_def dest!: bind_err_Inr split: option.splits)
    from im have im_in: "(''image'', image) \<in> set xdas"
      by (auto simp: dv dest: map_of_SomeD)
    with ok have im_dims: "da_dims image = dims meta"
      by (auto simp: var_ok_def)
    from a0 a1 im_dims have a_eq: "a0 = dims meta ! 0" "a1 = dims meta ! 1"
      and len: "1 < length (dims meta)"
      by (auto simp: nth_err_def split: if_splits)
    from tr obtain vs where
      vs: "map_err (transpose_entry [a0, a1, ''chan'', ''pol'']) (data_vars xds1) = Inr vs"
      and dvs: "data_vars xds = vs"
      by (auto simp: transpose_ds_def dest!: bind_err_Inr split: if_splits)
    have all_in: "\<forall>d \<in> set [a0, a1, ''chan'', ''pol'']. d \<in> set (dims meta)"
      using a_eq len pol chn by (auto intro: nth_mem)
    from im_in dv have "(''image'', image) \<in> set (data_vars xds1)" by simp
    from map_err_all [OF vs this] obtain im' where
      "transpose_entry [a0, a1, ''chan'', ''pol''] (''image'', image) = Inr im'"
      by blast
    note te = this
    have e1: "da_dims (snd im') =
        filter (\<lambda>d. d \<in> set (da_dims image)) [a0, a1, ''chan'', ''pol'']"
      using te by (rule transpose_entry_dims)
    have e2: "distinct (da_dims (snd im'))"
      using te by (rule transpose_entry_distinct)
    from all_in have e3: "filter (\<lambda>d. d \<in> set (dims meta)) [a0, a1, ''chan'', ''pol''] =
        [a0, a1, ''chan'', ''pol'']"
      by (rule filter_all_id)
    from e2 have dist: "distinct [a0, a1, ''chan'', ''pol'']"
      unfolding e1 im_dims e3 .
    from kv dvs have "kv \<in> set vs" by simp
    from map_err_set [OF vs this] obtain kv0 where
      "kv0 \<in> set xdas" "transpose_entry [a0, a1, ''chan'', ''pol''] kv0 = Inr kv"
      by (auto simp: dv)
    then obtain k0 v0 where
      k0: "(k0, v0) \<in> set xdas"
      and t0: "transpose_entry [a0, a1, ''chan'', ''pol''] (k0, v0) = Inr kv"
      by (metis prod.collapse)
    have dk: "da_dims (snd kv) = filter (\<lambda>d. d \<in> set (da_dims v0)) [a0, a1, ''chan'', ''pol'']"
      using t0 by (rule transpose_entry_dims)
    from ok k0 have "var_ok meta (k0, v0)" by blast
    then have "da_dims v0 = dims meta \<or> da_dims v0 = [''pol'', ''chan'']"
      by (auto simp: var_ok_def)
    then show ?thesis
    proof
      assume "da_dims v0 = dims meta"
      with dk e3 a_eq show ?thesis by simp
    next
      assume "da_dims v0 = [''pol'', ''chan'']"
      with dk dist show ?thesis by auto
    qed
  qed
qed

subsection \<open>Channel Batch Writer: the shaping of the mask\<close>

lemma index_of_less: "x \<in> set xs \<Longrightarrow> index_of xs x < length xs"
  unfolding index_of_def by (induction xs) auto

lemma nth_index_of: "x \<in> set xs \<Longrightarrow> xs ! index_of xs x = x"
  unfolding index_of_def by (induction xs) auto

lemma index_of_nth: "distinct xs \<Longrightarrow> i < length xs \<Longrightarrow> index_of xs (xs ! i) = i"
  unfolding index_of_def
proof (induction xs arbitrary: i)
  case Nil
  then show ?case by simp
next
  case (Cons x xs)
  then show ?case by (cases i) auto
qed

lemma valid_index_nth:
  "valid_index s idx \<longleftrightarrow> length idx = length s \<and> (\<forall>i < length s. idx ! i < s ! i)"
  by (auto simp: valid_index_def list_all2_conv_all_nth)

text \<open>The source index that a transposition reads for a target index.\<close>

lemma transpose_source_valid:
  assumes d1: "distinct order" and d2: "distinct ds" and eq: "set order = set ds"
      and len: "length ds = length s"
      and v: "valid_index (map (\<lambda>d. s ! index_of ds d) order) idx"
  shows "valid_index s (map (\<lambda>d. idx ! index_of order d) ds)"
  unfolding valid_index_nth
proof (intro conjI allI impI)
  show "length (map (\<lambda>d. idx ! index_of order d) ds) = length s"
    using len by simp
next
  fix i assume i: "i < length s"
  with len have mem: "ds ! i \<in> set order"
    using eq by (auto intro: nth_mem)
  let ?j = "index_of order (ds ! i)"
  from mem have j: "?j < length order" and oj: "order ! ?j = ds ! i"
    by (simp_all add: index_of_less nth_index_of)
  from v j have "idx ! ?j < map (\<lambda>d. s ! index_of ds d) order ! ?j"
    by (simp add: valid_index_nth)
  with j oj have "idx ! ?j < s ! index_of ds (ds ! i)"
    by simp
  with d2 i len show "map (\<lambda>d. idx ! index_of order d) ds ! i < s ! i"
    by (simp add: index_of_nth)
qed

lemma transpose_da_item:
  assumes tr: "transpose_da order v = Inr v'"
      and len: "length (da_dims v) = length (shape (da_data v))"
      and val: "valid_index (shape (da_data v)) (map env (da_dims v))"
  shows "item (da_data v') (map env (da_dims v')) = item (da_data v) (map env (da_dims v))"
proof -
  from tr have d1: "distinct order" and d2: "distinct (da_dims v)"
    and eq: "set order = set (da_dims v)"
    and dims': "da_dims v' = order"
    and data': "da_data v' =
       tabulate (map (\<lambda>d. shape (da_data v) ! index_of (da_dims v) d) order)
         (\<lambda>idx. item (da_data v) (map (\<lambda>d. idx ! index_of order d) (da_dims v)))"
    by (auto simp: transpose_da_def split: if_splits)
  have tv: "valid_index (map (\<lambda>d. shape (da_data v) ! index_of (da_dims v) d) order) (map env order)"
    unfolding valid_index_nth
  proof (intro conjI allI impI)
    show "length (map env order) =
        length (map (\<lambda>d. shape (da_data v) ! index_of (da_dims v) d) order)"
      by simp
  next
    fix i assume "i < length (map (\<lambda>d. shape (da_data v) ! index_of (da_dims v) d) order)"
    then have i: "i < length order" by simp
    then have mem: "order ! i \<in> set (da_dims v)"
      using eq by (auto intro: nth_mem)
    let ?j = "index_of (da_dims v) (order ! i)"
    from mem have j: "?j < length (da_dims v)" and dj: "da_dims v ! ?j = order ! i"
      by (simp_all add: index_of_less nth_index_of)
    from val j len have "map env (da_dims v) ! ?j < shape (da_data v) ! ?j"
      by (simp add: valid_index_nth)
    with j dj i show "map env order ! i <
        map (\<lambda>d. shape (da_data v) ! index_of (da_dims v) d) order ! i"
      by simp
  qed
  have src: "map (\<lambda>d. map env order ! index_of order d) (da_dims v) = map env (da_dims v)"
  proof (rule map_cong [OF refl])
    fix d assume "d \<in> set (da_dims v)"
    with eq have "d \<in> set order" by simp
    then show "map env order ! index_of order d = env d"
      by (simp add: index_of_less nth_index_of)
  qed
  show ?thesis
    unfolding dims' data' by (simp add: item_tabulate [OF tv] src)
qed

lemma item_in_data:
  "valid_index (shape a) idx \<Longrightarrow> length (data a) = prod_list (shape a) \<Longrightarrow> item a idx \<in> set (data a)"
  by (simp add: item_def ravel_less)

lemma transpose_da_cells:
  assumes tr: "transpose_da order v = Inr v'"
      and len: "length (da_dims v) = length (shape (da_data v))"
      and wf: "length (data (da_data v)) = prod_list (shape (da_data v))"
  shows "set (data (da_data v')) \<subseteq> set (data (da_data v))"
proof
  fix c assume c: "c \<in> set (data (da_data v'))"
  from tr have d1: "distinct order" and d2: "distinct (da_dims v)"
    and eq: "set order = set (da_dims v)"
    and data': "da_data v' =
       tabulate (map (\<lambda>d. shape (da_data v) ! index_of (da_dims v) d) order)
         (\<lambda>idx. item (da_data v) (map (\<lambda>d. idx ! index_of order d) (da_dims v)))"
    by (auto simp: transpose_da_def split: if_splits)
  let ?s = "map (\<lambda>d. shape (da_data v) ! index_of (da_dims v) d) order"
  from c obtain k where k: "k < prod_list ?s"
    and ck: "c = item (da_data v) (map (\<lambda>d. unravel ?s k ! index_of order d) (da_dims v))"
    unfolding data' by (auto simp: set_data_tabulate)
  from k have "valid_index ?s (unravel ?s k)" by (rule unravel_valid)
  from transpose_source_valid [OF d1 d2 eq len this]
  have "valid_index (shape (da_data v)) (map (\<lambda>d. unravel ?s k ! index_of order d) (da_dims v))" .
  from item_in_data [OF this wf] ck show "c \<in> set (data (da_data v))" by simp
qed

lemma item_astype_bool:
  "valid_index (shape a) idx \<Longrightarrow> length (data a) = prod_list (shape a) \<Longrightarrow>
   item (astype_bool a) idx = B (item a idx \<noteq> 0)"
  by (simp add: item_def astype_bool_def ravel_less)

lemma getchunk_wf: "length (data (getchunk img blc trc)) = prod_list (shape (getchunk img blc trc))"
  by (simp add: getchunk_def getchunk_of_def Let_def)

lemma map_of_update_other: "k \<noteq> k' \<Longrightarrow> map_of (AList.update k v al) k' = map_of al k'"
  by (simp add: update_conv')

lemma map_of_update_same: "map_of (AList.update k v al) k = Some v"
  by (simp add: update_conv')

lemma read_artifact_mask:
  assumes ra: "read_artifact dk prefix meta pt1 pt2 ''mask'' xdas = Inr xdas'"
      and op: "ia_open dk (prefix @ ''.'' @ ''mask'') = Inr img"
  shows "map_of xdas' ''deconvolve'' = Some (mask_var meta img pt1 pt2)
         \<and> length (dims meta) = ndim (getchunk img pt1 pt2)"
proof -
  from ra op obtain v xdas1 where
    v: "xa (astype_bool (getchunk img pt1 pt2)) (dims meta) = Inr v"
    and x1: "xdas1 = AList.update ''deconvolve'' v xdas"
    and second: "(if length (masks img) > 0 then
               bind_err (xa (as_mask (getchunk_mask img pt1 pt2)) (dims meta)) (\<lambda>v.
               Inr (AList.update ''mask'' v xdas1))
             else Inr xdas1) = Inr xdas'"
    unfolding read_artifact_def Let_def by (auto dest!: bind_err_Inr)
  from v have veq: "v = mask_var meta img pt1 pt2"
    and len: "length (dims meta) = ndim (getchunk img pt1 pt2)"
    by (auto simp: xa_def mask_var_def ndim_def astype_bool_def split: if_splits)
  from second have "map_of xdas' ''deconvolve'' = map_of xdas1 ''deconvolve''"
    by (auto dest!: bind_err_Inr simp: map_of_update_other split: if_splits)
  with x1 veq len show ?thesis
    by (simp add: map_of_update_same)
qed

lemma read_artifact_other:
  assumes ra: "read_artifact dk prefix meta pt1 pt2 t xdas = Inr xdas'"
      and t: "t \<noteq> ''mask''" "t \<noteq> ''deconvolve''"
  shows "map_of xdas' ''deconvolve'' = map_of xdas ''deconvolve''"
proof -
  define t' where "t' = (if t = ''fits'' then ''image'' else t)"
  from t have t'1: "t' \<noteq> ''mask''" and t'2: "t' \<noteq> ''deconvolve''"
    by (auto simp: t'_def)
  from ra obtain img xdas1 where
    first: "(if t' = ''mask'' then
             bind_err (xa (astype_bool (getchunk img pt1 pt2)) (dims meta)) (\<lambda>v.
             Inr (AList.update ''deconvolve'' v xdas))
           else if t' = ''sumwt'' then
             bind_err (nth_err (shape (getchunk img pt1 pt2)) 2) (\<lambda>n.
             bind_err (reshape [n, 1] (as_float (getchunk img pt1 pt2))) (\<lambda>r.
             bind_err (xa r [''pol'', ''chan'']) (\<lambda>v.
             Inr (AList.update t' v xdas))))
           else
             bind_err (xa (as_float (getchunk img pt1 pt2)) (dims meta)) (\<lambda>v.
             Inr (AList.update t' v xdas))) = Inr xdas1"
    and second: "(if length (masks img) > 0 then
               bind_err (xa (as_mask (getchunk_mask img pt1 pt2)) (dims meta)) (\<lambda>v.
               Inr (AList.update ''mask'' v xdas1))
             else Inr xdas1) = Inr xdas'"
    unfolding read_artifact_def Let_def t'_def by (auto dest!: bind_err_Inr)
  from first t'1 t'2 have "map_of xdas1 ''deconvolve'' = map_of xdas ''deconvolve''"
    by (auto dest!: bind_err_Inr simp: map_of_update_other split: if_splits)
  moreover from second have "map_of xdas' ''deconvolve'' = map_of xdas1 ''deconvolve''"
    by (auto dest!: bind_err_Inr simp: map_of_update_other split: if_splits)
  ultimately show ?thesis by simp
qed

lemma read_artifacts_mask:
  assumes "read_artifacts dk prefix meta pt1 pt2 ts xdas = Inr xdas'"
      and "''deconvolve'' \<notin> set ts"
      and "ia_open dk (prefix @ ''.'' @ ''mask'') = Inr img"
      and "''mask'' \<in> set ts \<or>
           (map_of xdas ''deconvolve'' = Some (mask_var meta img pt1 pt2)
            \<and> length (dims meta) = ndim (getchunk img pt1 pt2))"
  shows "map_of xdas' ''deconvolve'' = Some (mask_var meta img pt1 pt2)
         \<and> length (dims meta) = ndim (getchunk img pt1 pt2)"
  using assms
proof (induction ts arbitrary: xdas)
  case Nil
  then show ?case by simp
next
  case (Cons t ts)
  from Cons.prems(1) obtain x1 where
    a: "read_artifact dk prefix meta pt1 pt2 t xdas = Inr x1"
    and b: "read_artifacts dk prefix meta pt1 pt2 ts x1 = Inr xdas'"
    by (auto dest!: bind_err_Inr)
  from Cons.prems(2) have nd: "t \<noteq> ''deconvolve''" "''deconvolve'' \<notin> set ts" by auto
  have "''mask'' \<in> set ts \<or>
           (map_of x1 ''deconvolve'' = Some (mask_var meta img pt1 pt2)
            \<and> length (dims meta) = ndim (getchunk img pt1 pt2))"
  proof (cases "t = ''mask''")
    case True
    with a Cons.prems(3) show ?thesis
      by (auto dest: read_artifact_mask)
  next
    case False
    from read_artifact_other [OF a False nd(1)] Cons.prems(4) False show ?thesis
      by auto
  qed
  from Cons.IH [OF b nd(2) Cons.prems(3) this] show ?case .
qed

lemma map_err_transpose_map_of:
  "map_err (transpose_entry order) xs = Inr ys \<Longrightarrow> map_of xs k = Some v \<Longrightarrow>
   \<exists>v'. map_of ys k = Some v' \<and>
        transpose_da (filter (\<lambda>d. d \<in> set (da_dims v)) order) v = Inr v'"
proof (induction xs arbitrary: ys)
  case Nil
  then show ?case by simp
next
  case (Cons x xs)
  from Cons.prems(1) obtain y ys0 where
    y: "transpose_entry order x = Inr y"
    and r: "map_err (transpose_entry order) xs = Inr ys0"
    and ys: "ys = y # ys0"
    by (auto dest!: bind_err_Inr)
  from y obtain w where w: "transpose_da (filter (\<lambda>d. d \<in> set (da_dims (snd x))) order) (snd x) = Inr w"
    and yeq: "y = (fst x, w)"
    by (auto simp: transpose_entry_def dest!: bind_err_Inr)
  show ?case
  proof (cases "fst x = k")
    case True
    with Cons.prems(2) have "snd x = v" by (cases x) auto
    with w yeq ys True show ?thesis by auto
  next
    case False
    with Cons.prems(2) have "map_of xs k = Some v" by (cases x) auto
    from Cons.IH [OF r this] yeq ys False show ?thesis by auto
  qed
qed

lemma astype_bool_cells: "c \<in> set (data (astype_bool a)) \<Longrightarrow> \<exists>b. c = B b"
  by (auto simp: astype_bool_def)

text \<open>
  C7. Shaping the mask artifact stores, under the name \<^verbatim>\<open>deconvolve\<close>, a variable with
  the reference dimensions whose elements are the booleans \<open>x \<noteq> 0\<close> of the pixels \<open>x\<close>
  of the chunk read from the artifact. In the assembled record of a batch whose
  compatible set has the mask and no artifact type called \<^verbatim>\<open>deconvolve\<close>, that variable
  holds only booleans and, at every named position of the chunk, the boolean \<open>x \<noteq> 0\<close> of
  the source pixel there, whatever order the dimensions were put in.
\<close>

theorem mask_shaping:
  assumes op: "ia_open dk (prefix @ ''.'' @ ''mask'') = Inr img"
  shows "(read_artifact dk prefix meta pt1 pt2 ''mask'' xdas = Inr xdas' \<longrightarrow>
            (\<exists>v. map_of xdas' ''deconvolve'' = Some v \<and> ''deconvolve'' \<noteq> ''mask'' \<and>
                 da_dims v = dims meta \<and>
                 shape (da_data v) = shape (getchunk img pt1 pt2) \<and>
                 data (da_data v) = map (\<lambda>x. B (x \<noteq> 0)) (data (getchunk img pt1 pt2))))
       \<and> (batch_record dk prefix meta imtypes cs chan_dim chan_batch chan = Inr xds \<longrightarrow>
            ''mask'' \<in> set imtypes \<longrightarrow> ''deconvolve'' \<notin> set imtypes \<longrightarrow>
            (\<exists>v. map_of (data_vars xds) ''deconvolve'' = Some v \<and>
                 (\<forall>c \<in> set (data (da_data v)). \<exists>b. c = B b) \<and>
                 (\<forall>env. valid_index
                          (shape (getchunk img (batch_pt1 meta chan_dim chan)
                                    (batch_pt2 meta chan_dim chan chan_batch)))
                          (map env (dims meta)) \<longrightarrow>
                        item (da_data v) (map env (da_dims v)) =
                        B (item (getchunk img (batch_pt1 meta chan_dim chan)
                                   (batch_pt2 meta chan_dim chan chan_batch))
                             (map env (dims meta)) \<noteq> 0))))"
proof (intro conjI impI)
  assume "read_artifact dk prefix meta pt1 pt2 ''mask'' xdas = Inr xdas'"
  from read_artifact_mask [OF this op]
  show "\<exists>v. map_of xdas' ''deconvolve'' = Some v \<and> ''deconvolve'' \<noteq> ''mask'' \<and>
                 da_dims v = dims meta \<and>
                 shape (da_data v) = shape (getchunk img pt1 pt2) \<and>
                 data (da_data v) = map (\<lambda>x. B (x \<noteq> 0)) (data (getchunk img pt1 pt2))"
    by (simp add: mask_var_def astype_bool_def)
next
  let ?pt1 = "batch_pt1 meta chan_dim chan"
  let ?pt2 = "batch_pt2 meta chan_dim chan chan_batch"
  let ?chunk = "getchunk img ?pt1 ?pt2"
  let ?v0 = "mask_var meta img ?pt1 ?pt2"
  assume rec: "batch_record dk prefix meta imtypes cs chan_dim chan_batch chan = Inr xds"
    and m: "''mask'' \<in> set imtypes" and nd: "''deconvolve'' \<notin> set imtypes"
  from rec obtain xdas chunking xds0 xds1 where
    ra: "read_artifacts dk prefix meta ?pt1 ?pt2 imtypes [] = Inr xdas"
    and x0: "xd xdas (chunk_coords_of meta chan chan_batch) (attrs meta) = Inr xds0"
    and x1: "chunk chunking xds0 = Inr xds1"
    and ro: "reorder xds1 = Inr xds"
    unfolding batch_record_def by (auto dest!: bind_err_Inr)
  from read_artifacts_mask [OF ra nd op] m
  have v0: "map_of xdas ''deconvolve'' = Some ?v0"
    and len: "length (dims meta) = ndim ?chunk"
    by simp_all
  from x0 have "data_vars xds0 = xdas"
    by (auto simp: xd_def dest!: bind_err_Inr split: if_splits)
  with x1 have dv: "data_vars xds1 = xdas"
    by (auto simp: chunk_def split: if_splits)
  have len0: "length (da_dims ?v0) = length (shape (da_data ?v0))"
    using len by (simp add: mask_var_def ndim_def astype_bool_def)
  have wf0: "length (data (da_data ?v0)) = prod_list (shape (da_data ?v0))"
    using getchunk_wf [of img ?pt1 ?pt2] by (simp add: mask_var_def astype_bool_def)
  have cells0: "\<forall>c \<in> set (data (da_data ?v0)). \<exists>b. c = B b"
    by (auto simp: mask_var_def dest: astype_bool_cells)
  have item0: "item (da_data ?v0) (map env (da_dims ?v0)) = B (item ?chunk (map env (dims meta)) \<noteq> 0)"
    if "valid_index (shape ?chunk) (map env (dims meta))" for env
    using that getchunk_wf [of img ?pt1 ?pt2]
    by (simp add: mask_var_def item_astype_bool)
  have "\<exists>v. map_of (data_vars xds) ''deconvolve'' = Some v \<and>
          set (data (da_data v)) \<subseteq> set (data (da_data ?v0)) \<and>
          (\<forall>env. valid_index (shape ?chunk) (map env (dims meta)) \<longrightarrow>
             item (da_data v) (map env (da_dims v)) = item (da_data ?v0) (map env (da_dims ?v0)))"
  proof (cases "''pol'' \<in> set (ds_dims xds1)")
    case False
    with ro have "xds = xds1" by (simp add: reorder_def)
    with dv v0 show ?thesis by auto
  next
    case True
    with ro obtain order where
      tr: "transpose_ds order xds1 = Inr xds"
      by (auto simp: reorder_def dest!: bind_err_Inr split: option.splits)
    then obtain vs where
      vs: "map_err (transpose_entry order) (data_vars xds1) = Inr vs"
      and dvs: "data_vars xds = vs"
      by (auto simp: transpose_ds_def dest!: bind_err_Inr split: if_splits)
    from v0 dv have "map_of (data_vars xds1) ''deconvolve'' = Some ?v0" by simp
    from map_err_transpose_map_of [OF vs this] obtain v' where
      v': "map_of vs ''deconvolve'' = Some v'"
      and t': "transpose_da (filter (\<lambda>d. d \<in> set (da_dims ?v0)) order) ?v0 = Inr v'"
      by blast
    have "item (da_data v') (map env (da_dims v')) = item (da_data ?v0) (map env (da_dims ?v0))"
      if "valid_index (shape ?chunk) (map env (dims meta))" for env
    proof (rule transpose_da_item [OF t' len0])
      from that show "valid_index (shape (da_data ?v0)) (map env (da_dims ?v0))"
        by (simp add: mask_var_def astype_bool_def)
    qed
    with v' dvs transpose_da_cells [OF t' len0 wf0] show ?thesis by auto
  qed
  with cells0 item0
  show "\<exists>v. map_of (data_vars xds) ''deconvolve'' = Some v \<and>
                 (\<forall>c \<in> set (data (da_data v)). \<exists>b. c = B b) \<and>
                 (\<forall>env. valid_index (shape ?chunk) (map env (dims meta)) \<longrightarrow>
                        item (da_data v) (map env (da_dims v)) =
                        B (item ?chunk (map env (dims meta)) \<noteq> 0))"
    by (metis subsetD)
qed

subsection \<open>A batch with an image, a mask and a sum of weights\<close>

lemma batch_dk5s:
  "batch_record dk5s ''x'' meta5 [''image'', ''mask'', ''sumwt''] [-1, -1, 1, 1] 3 1 1 = Inr xds5"
  by code_simp

theorem batch_record_dim_order_witness:
  "batch_record dk5s ''x'' meta5 [''image'', ''mask'', ''sumwt''] [-1, -1, 1, 1] 3 1 1 = Inr xds5
   \<and> list_all (\<lambda>kv. da_dims (snd kv) = [''d0'', ''d1'', ''chan'', ''pol'']
                       \<or> da_dims (snd kv) = [''chan'', ''pol'']) (data_vars xds5)
   \<and> map fst (data_vars xds5) = [''image'', ''deconvolve'', ''sumwt'']"
proof -
  have pol: "''pol'' \<in> set (dims meta5)" and chn: "''chan'' \<in> set (dims meta5)"
    by (simp_all add: meta5_def)
  have d: "dims meta5 ! 0 = ''d0''" "dims meta5 ! 1 = ''d1''"
    by (simp_all add: meta5_def)
  from batch_record_dim_order [OF batch_dk5s pol chn]
  have "list_all (\<lambda>kv. da_dims (snd kv) = [''d0'', ''d1'', ''chan'', ''pol'']
                       \<or> da_dims (snd kv) = [''chan'', ''pol'']) (data_vars xds5)"
    unfolding d list_all_iff .
  moreover have "map fst (data_vars xds5) = [''image'', ''deconvolve'', ''sumwt'']"
    by (simp add: xds5_def)
  ultimately show ?thesis
    using batch_dk5s by blast
qed

lemma chunk_mask5:
  "getchunk mask5 (batch_pt1 meta5 3 1) (batch_pt2 meta5 3 1 1) = \<lparr>shape = [1, 1, 1, 1], data = [1]\<rparr>"
  by code_simp

lemma read_mask5:
  "read_artifact dk5s ''x'' meta5 (batch_pt1 meta5 3 1) (batch_pt2 meta5 3 1 1) ''mask'' [] =
     Inr [(''deconvolve'',
           \<lparr>da_dims = [''d0'', ''d1'', ''pol'', ''chan''],
              da_data = \<lparr>shape = [1, 1, 1, 1], data = [B True]\<rparr>\<rparr>)]"
  by code_simp

theorem mask_shaping_witness:
  "(\<exists>v. map_of [(''deconvolve'',
           \<lparr>da_dims = [''d0'', ''d1'', ''pol'', ''chan''],
              da_data = \<lparr>shape = [1, 1, 1, 1], data = [B True]\<rparr>\<rparr>)] ''deconvolve'' = Some v
        \<and> data (da_data v) = [B ((1::real) \<noteq> 0)])
   \<and> (\<exists>v. map_of (data_vars xds5) ''deconvolve'' = Some v \<and>
          (\<forall>c \<in> set (data (da_data v)). \<exists>b. c = B b) \<and>
          item (da_data v) (map (\<lambda>d. 0) (da_dims v)) = B ((1::real) \<noteq> 0))"
proof -
  have op: "ia_open dk5s (''x'' @ ''.'' @ ''mask'') = Inr mask5"
    by (simp add: ia_open_def dk5s_def)
  note ms = mask_shaping [OF op, of meta5 "batch_pt1 meta5 3 1" "batch_pt2 meta5 3 1 1" "[]"
      "[(''deconvolve'',
           \<lparr>da_dims = [''d0'', ''d1'', ''pol'', ''chan''],
              da_data = \<lparr>shape = [1, 1, 1, 1], data = [B True]\<rparr>\<rparr>)]"
      "[''image'', ''mask'', ''sumwt'']" "[-1, -1, 1, 1]" 3 1 1 xds5]
  from ms read_mask5 have first:
    "\<exists>v. map_of [(''deconvolve'',
           \<lparr>da_dims = [''d0'', ''d1'', ''pol'', ''chan''],
              da_data = \<lparr>shape = [1, 1, 1, 1], data = [B True]\<rparr>\<rparr>)] ''deconvolve'' = Some v
        \<and> data (da_data v) = [B ((1::real) \<noteq> 0)]"
    by (simp add: chunk_mask5)
  have dm: "dims meta5 = [''d0'', ''d1'', ''pol'', ''chan'']"
    by (simp add: meta5_def)
  have val: "valid_index (shape (getchunk mask5 (batch_pt1 meta5 3 1) (batch_pt2 meta5 3 1 1)))
      (map (\<lambda>d. 0) (dims meta5))"
    unfolding chunk_mask5 dm by (simp add: valid_index_def)
  have it: "item (getchunk mask5 (batch_pt1 meta5 3 1) (batch_pt2 meta5 3 1 1))
      (map (\<lambda>d. 0) (dims meta5)) = 1"
    unfolding chunk_mask5 dm by (simp add: item_def)
  from ms batch_dk5s obtain v where
    v: "map_of (data_vars xds5) ''deconvolve'' = Some v"
    and cells: "\<forall>c \<in> set (data (da_data v)). \<exists>b. c = B b"
    and items: "\<forall>env. valid_index
                          (shape (getchunk mask5 (batch_pt1 meta5 3 1) (batch_pt2 meta5 3 1 1)))
                          (map env (dims meta5)) \<longrightarrow>
                        item (da_data v) (map env (da_dims v)) =
                        B (item (getchunk mask5 (batch_pt1 meta5 3 1) (batch_pt2 meta5 3 1 1))
                             (map env (dims meta5)) \<noteq> 0)"
    by auto
  from items val it have "item (da_data v) (map (\<lambda>d. 0) (da_dims v)) = B ((1::real) \<noteq> 0)"
    by metis
  with v cells first show ?thesis by blast
qed

subsection \<open>Failing inputs of the partitioner, the resolver and the batch writer\<close>

lemma read_metadata_imgq: "read_metadata imgq = Inr metaq"
  by code_simp

lemma read_metadata_model1:
  "read_metadata model1 =
     Inr \<lparr>coords = [(''right_ascension'', Dimmed [''d0''] \<lparr>shape = [2], data = [F 0, F 1]\<rparr>)],
          dsize = [2], dims = [''d0''],
          attrs = [(''axisunits'', SList [SStr ''rad''])]\<rparr>"
  by code_simp

text \<open>
  C2 at an artifact with a single axis. The reference image has shape (2, 2, 2, 2) and
  the model has shape (2). The comparison of line 143 broadcasts the shorter shape, finds
  no unequal element, and the model stays in the compatible set although its shape
  differs from the reference shape; the incompatible set is empty.
\<close>

theorem partition_rank_mismatch:
  "partition_artifacts dkq ''x'' (candidates ''image'' None) = Inr (Some metaq, [], [''image'', ''model''])
   \<and> shape (pixels model1) \<noteq> dsize metaq"
proof
  have ne: "np_any_ne (dsize metaq) (shape (pixels model1)) = False"
    by (simp add: np_any_ne_def metaq_def model1_def)
  show "partition_artifacts dkq ''x'' (candidates ''image'' None) = Inr (Some metaq, [], [''image'', ''model''])"
    by (simp add: partition_artifacts_def candidates_def default_imtypes_def partition_step_def
        dkq_def ia_open_def read_metadata_imgq read_metadata_model1 ne)
  show "shape (pixels model1) \<noteq> dsize metaq"
    by (simp add: metaq_def model1_def)
qed

text \<open>
  For an artifact with as many axes as the reference, one iteration of the loop
  classifies by equality of the shapes: a differing shape moves the artifact to the
  incompatible set unless it is the sum-of-weights artifact, and an equal shape keeps it.
\<close>

lemma partition_step_same_rank:
  assumes "dk (prefix @ ''.'' @ t) = Some (LegacyImage img)"
      and "read_metadata img = Inr tm"
      and "length (shape (pixels img)) = length (dsize m)"
  shows "partition_step dk prefix t (Some m, dif, ims) =
           Inr (if shape (pixels img) \<noteq> dsize m \<and> t \<noteq> ''sumwt''
                then (Some m, dif @ [t], filter (\<lambda>x. x \<noteq> t) ims)
                else (Some m, dif, ims))"
  using assms by (auto simp: partition_step_def ia_open_def np_any_ne_def)

text \<open>
  C4 at an image with two polarizations. The axes are classified by their units, but the
  coordinate stored for the first cartesian axis \<^verbatim>\<open>pol\<close> has one element, the world
  coordinate at pixel 0, where sweeping the axis gives two: line 116 takes element 0
  along the first axis of the slice, which for the first cartesian axis is the swept
  axis itself. The last cartesian axis \<^verbatim>\<open>chan\<close> gets its sweep.
\<close>

theorem cart_coord_first_axis:
  "read_metadata imgq = Inr metaq
   \<and> map_of (coords metaq) ''pol'' = Some (Bare \<lparr>shape = [1], data = [F 1]\<rparr>)
   \<and> spec_cart_coord (toworld imgq) (shape (pixels imgq)) 2 = \<lparr>shape = [2], data = [F 1, F 2]\<rparr>
   \<and> map_of (coords metaq) ''chan'' = Some (Bare (spec_cart_coord (toworld imgq) (shape (pixels imgq)) 3))"
proof -
  have a: "spec_cart_coord (toworld imgq) (shape (pixels imgq)) 2 = \<lparr>shape = [2], data = [F 1, F 2]\<rparr>"
    by code_simp
  have b: "spec_cart_coord (toworld imgq) (shape (pixels imgq)) 3 = \<lparr>shape = [2], data = [F 100, F 101]\<rparr>"
    by code_simp
  show ?thesis
    unfolding a b by (simp add: read_metadata_imgq) (simp add: metaq_def)
qed

text \<open>
  With the one-element \<^verbatim>\<open>pol\<close> coordinate, the dataset of an image with two
  polarizations cannot be built: the sizes of the dimension conflict.
\<close>

lemma convert_two_polarizations:
  "fst (convert_image env_u ''x.image'' None None (PyTuple [-1, -1, 1, 1]) True
          [''x.image'' \<mapsto> LegacyImage imgq]) = Inl ValueError"
  by code_simp

text \<open>
  The classification of the axes: an axis is spherical exactly when its unit is
  \<^verbatim>\<open>rad\<close>, and cartesian otherwise.
\<close>

lemma sphr_dims_of_iff:
  "sphr_dims_of units n = Inr sd \<Longrightarrow> dd \<in> set sd \<longleftrightarrow> dd < n \<and> units ! dd = ''rad''"
  by (auto simp: sphr_dims_of_def split: if_splits)

lemma cart_dims_of_iff:
  "sphr_dims_of units n = Inr sd \<Longrightarrow>
   dd \<in> set (cart_dims_of sd n) \<longleftrightarrow> dd < n \<and> units ! dd \<noteq> ''rad''"
  by (auto simp: sphr_dims_of_def cart_dims_of_def split: if_splits)

text \<open>
  The coordinates of a batch are the reference coordinates except at the key
  \<^verbatim>\<open>chan\<close>, which holds the pixel indices of the batch.
\<close>

lemma chunk_coords_frame:
  "k \<noteq> ''chan'' \<Longrightarrow> map_of (chunk_coords_of meta chan chan_batch) k = map_of (coords meta) k"
  by (simp add: chunk_coords_of_def update_conv')

lemma chunk_coords_chan:
  "map_of (chunk_coords_of meta chan chan_batch) ''chan'' = Some (Bare (arange_from chan_batch chan))"
  by (simp add: chunk_coords_of_def update_conv')

text \<open>
  C5 at the batch of channel 1 of a five-channel image whose channel coordinate is
  100, ..., 104: the record's channel coordinate is the pixel index 1, where the reference
  coordinate re-sliced to the batch is 101.
\<close>

theorem chan_coord_is_index:
  "batch_record dk5s ''x'' meta5 [''image'', ''mask'', ''sumwt''] [-1, -1, 1, 1] 3 1 1 = Inr xds5
   \<and> map_of (ds_coords xds5) ''chan'' =
       Some \<lparr>da_dims = [''chan''], da_data = \<lparr>shape = [1], data = [I 1]\<rparr>\<rparr>
   \<and> map_of (chunk_coords_of meta5 1 1) ''chan'' = Some (Bare \<lparr>shape = [1], data = [I 1]\<rparr>)
   \<and> spec_chan_coord meta5 1 1 = Some (Bare \<lparr>shape = [1], data = [F 101]\<rparr>)"
proof (intro conjI)
  show "batch_record dk5s ''x'' meta5 [''image'', ''mask'', ''sumwt''] [-1, -1, 1, 1] 3 1 1 = Inr xds5"
    by (rule batch_dk5s)
  show "map_of (ds_coords xds5) ''chan'' =
       Some \<lparr>da_dims = [''chan''], da_data = \<lparr>shape = [1], data = [I 1]\<rparr>\<rparr>"
    by (simp add: xds5_def)
  show "map_of (chunk_coords_of meta5 1 1) ''chan'' = Some (Bare \<lparr>shape = [1], data = [I 1]\<rparr>)"
    by (simp add: chunk_coords_chan arange_from_def)
  show "spec_chan_coord meta5 1 1 = Some (Bare \<lparr>shape = [1], data = [F 101]\<rparr>)"
    by (simp add: spec_chan_coord_def meta5_def)
qed

text \<open>
  C3 at five channels and batch size two. The conversion writes the batches of channels
  0-1 and 2-3 and then raises ValueError: the store is left with four channels. The
  third batch reads the one remaining channel, but its channel coordinate
  \<^verbatim>\<open>np.arange(chan_batch) + chan\<close> has two elements, and the dataset cannot be built.
\<close>

theorem batch_size_two_of_five:
  "fst (convert_image env_u ''x.image'' None None (PyTuple [-1, -1, 1, 2]) False dk5) = Inl ValueError
   \<and> stored_shape (snd (convert_image env_u ''x.image'' None None (PyTuple [-1, -1, 1, 2]) False dk5))
        ''x.img.zarr'' ''image'' = Some [1, 1, 4, 1]
   \<and> batch_record dk5 ''x'' meta5 [''image''] [-1, -1, 1, 2] 3 2 4 = Inl ValueError
   \<and> shape (getchunk img5 (batch_pt1 meta5 3 4) (batch_pt2 meta5 3 4 2)) = [1, 1, 1, 1]
   \<and> arange_from 2 4 = \<lparr>shape = [2], data = [I 4, I 5]\<rparr>"
  by code_simp

subsection \<open>Channel Batch Writer: the channel extent of a batch\<close>

lemma add_dims_sizes:
  "add_dims ps acc = Inr out \<Longrightarrow>
   (\<forall>k n. map_of acc k = Some n \<longrightarrow> map_of out k = Some n) \<and>
   (\<forall>p \<in> set ps. map_of out (fst p) = Some (snd p))"
proof (induction ps arbitrary: acc)
  case Nil
  then show ?case by simp
next
  case (Cons p ps)
  obtain d n where p: "p = (d, n)" by (cases p)
  show ?case
  proof (cases "map_of acc d")
    case None
    with Cons.prems p have "add_dims ps (acc @ [(d, n)]) = Inr out" by simp
    from Cons.IH [OF this] None p show ?thesis
      by (auto simp: map_add_def split: option.splits)
  next
    case (Some m)
    with Cons.prems p have eq: "m = n" and "add_dims ps acc = Inr out"
      by (auto split: if_splits)
    from Cons.IH [OF this(2)] Some eq p show ?thesis by auto
  qed
qed

lemma dim_sizes_sizes:
  "dim_sizes vs acc = Inr out \<Longrightarrow>
   (\<forall>k n. map_of acc k = Some n \<longrightarrow> map_of out k = Some n) \<and>
   (\<forall>kv \<in> set vs. \<forall>p \<in> set (zip (da_dims (snd kv)) (shape (da_data (snd kv)))).
       map_of out (fst p) = Some (snd p))"
proof (induction vs arbitrary: acc)
  case Nil
  then show ?case by simp
next
  case (Cons kv vs)
  from Cons.prems obtain acc1 where
    a: "add_dims (zip (da_dims (snd kv)) (shape (da_data (snd kv)))) acc = Inr acc1"
    and b: "dim_sizes vs acc1 = Inr out"
    by (auto dest!: bind_err_Inr)
  from add_dims_sizes [OF a] Cons.IH [OF b] show ?case
    by (auto simp del: add_dims.simps)
qed

lemma dim_sizes_entry:
  assumes "dim_sizes vs acc = Inr out" and "kv \<in> set vs"
      and "(d, n) \<in> set (zip (da_dims (snd kv)) (shape (da_data (snd kv))))"
  shows "map_of out d = Some n"
  using dim_sizes_sizes [OF assms(1)] assms(2,3) by fastforce

lemma xa_wf: "xa a ds = Inr v \<Longrightarrow> var_wf (k, v)"
  by (auto simp: xa_def var_wf_def ndim_def split: if_splits)

lemma read_artifact_var_wf:
  assumes "read_artifact dk prefix meta pt1 pt2 t xdas = Inr xdas'"
      and "\<forall>kv \<in> set xdas. var_wf kv"
  shows "\<forall>kv \<in> set xdas'. var_wf kv"
proof -
  from assms(1) obtain img xdas1 where
    first: "(if (if t = ''fits'' then ''image'' else t) = ''mask'' then
             bind_err (xa (astype_bool (getchunk img pt1 pt2)) (dims meta)) (\<lambda>v.
             Inr (AList.update ''deconvolve'' v xdas))
           else if (if t = ''fits'' then ''image'' else t) = ''sumwt'' then
             bind_err (nth_err (shape (getchunk img pt1 pt2)) 2) (\<lambda>n.
             bind_err (reshape [n, 1] (as_float (getchunk img pt1 pt2))) (\<lambda>r.
             bind_err (xa r [''pol'', ''chan'']) (\<lambda>v.
             Inr (AList.update (if t = ''fits'' then ''image'' else t) v xdas))))
           else
             bind_err (xa (as_float (getchunk img pt1 pt2)) (dims meta)) (\<lambda>v.
             Inr (AList.update (if t = ''fits'' then ''image'' else t) v xdas))) = Inr xdas1"
    and second: "(if length (masks img) > 0 then
               bind_err (xa (as_mask (getchunk_mask img pt1 pt2)) (dims meta)) (\<lambda>v.
               Inr (AList.update ''mask'' v xdas1))
             else Inr xdas1) = Inr xdas'"
    unfolding read_artifact_def Let_def by (auto dest!: bind_err_Inr)
  have upd: "\<forall>kv \<in> set (AList.update k v al). var_wf kv"
    if "xa a ds = Inr v" "\<forall>kv \<in> set al. var_wf kv" for k v al a ds
  proof
    fix kv assume "kv \<in> set (AList.update k v al)"
    with set_update_subset [of k v al] have "kv = (k, v) \<or> kv \<in> set al" by auto
    with that xa_wf [OF that(1), of k] show "var_wf kv" by auto
  qed
  from first assms(2) have ok1: "\<forall>kv \<in> set xdas1. var_wf kv"
    by (auto dest!: bind_err_Inr split: if_splits intro: upd [rule_format])
  from second ok1 show ?thesis
    by (auto dest!: bind_err_Inr split: if_splits intro: upd [rule_format])
qed

lemma read_artifacts_var_wf:
  "read_artifacts dk prefix meta pt1 pt2 ts xdas = Inr xdas' \<Longrightarrow>
   \<forall>kv \<in> set xdas. var_wf kv \<Longrightarrow> \<forall>kv \<in> set xdas'. var_wf kv"
proof (induction ts arbitrary: xdas)
  case Nil
  then show ?case by simp
next
  case (Cons t ts)
  from Cons.prems(1) obtain x1 where
    a: "read_artifact dk prefix meta pt1 pt2 t xdas = Inr x1"
    and b: "read_artifacts dk prefix meta pt1 pt2 ts x1 = Inr xdas'"
    by (auto dest!: bind_err_Inr)
  from read_artifact_var_wf [OF a Cons.prems(2)] Cons.IH [OF b] show ?case by blast
qed

lemma xd_chan_extent:
  assumes x: "xd xdas (chunk_coords_of meta chan chan_batch) ats = Inr xds0"
      and kv: "(k, v) \<in> set xdas" and wf: "var_wf (k, v)"
      and c: "''chan'' \<in> set (da_dims v)"
  shows "shape (da_data v) ! index_of (da_dims v) ''chan'' = chan_batch"
proof -
  from x obtain cvars sizes where
    cv: "map_err (\<lambda>kv. bind_err (coord_variable (fst kv) (snd kv)) (\<lambda>v. Inr (fst kv, v)))
           (chunk_coords_of meta chan chan_batch) = Inr cvars"
    and ds: "dim_sizes (xdas @ cvars) [] = Inr sizes"
    by (auto simp: xd_def dest!: bind_err_Inr split: if_splits)
  have "map_of (chunk_coords_of meta chan chan_batch) ''chan'' = Some (Bare (arange_from chan_batch chan))"
    by (rule chunk_coords_chan)
  then have "(''chan'', Bare (arange_from chan_batch chan)) \<in> set (chunk_coords_of meta chan chan_batch)"
    by (rule map_of_SomeD)
  from map_err_all [OF cv this] obtain y where
    y: "y \<in> set cvars"
    and "bind_err (coord_variable ''chan'' (Bare (arange_from chan_batch chan))) (\<lambda>v. Inr (''chan'', v)) = Inr y"
    by auto
  then have yeq: "y = (''chan'', \<lparr>da_dims = [''chan''], da_data = arange_from chan_batch chan\<rparr>)"
    by (auto simp: coord_variable_def ndim_def arange_from_def dest!: bind_err_Inr)
  have "(''chan'', chan_batch) \<in> set (zip (da_dims (snd y)) (shape (da_data (snd y))))"
    by (simp add: yeq arange_from_def)
  moreover from y have "y \<in> set (xdas @ cvars)" by simp
  ultimately have s1: "map_of sizes ''chan'' = Some chan_batch"
    by (rule dim_sizes_entry [OF ds, rotated])
  let ?i = "index_of (da_dims v) ''chan''"
  from c have i: "?i < length (da_dims v)" and di: "da_dims v ! ?i = ''chan''"
    by (simp_all add: index_of_less nth_index_of)
  from i wf have "(da_dims v ! ?i, shape (da_data v) ! ?i) \<in>
      set (zip (da_dims (snd (k, v))) (shape (da_data (snd (k, v)))))"
    by (auto simp: var_wf_def in_set_zip)
  moreover from kv have "(k, v) \<in> set (xdas @ cvars)" by simp
  ultimately have "map_of sizes (da_dims v ! ?i) = Some (shape (da_data v) ! ?i)"
    by (rule dim_sizes_entry [OF ds, rotated])
  with s1 di show ?thesis by simp
qed

lemma transpose_entry_extent:
  assumes t: "transpose_entry order (k, v) = Inr kv'"
      and c: "d \<in> set (da_dims (snd kv'))"
  shows "d \<in> set (da_dims v) \<and>
         shape (da_data (snd kv')) ! index_of (da_dims (snd kv')) d =
         shape (da_data v) ! index_of (da_dims v) d"
proof -
  let ?o = "filter (\<lambda>d. d \<in> set (da_dims v)) order"
  from t have dims': "da_dims (snd kv') = ?o"
    and sh: "shape (da_data (snd kv')) = map (\<lambda>d. shape (da_data v) ! index_of (da_dims v) d) ?o"
    by (auto simp: transpose_entry_def transpose_da_def dest!: bind_err_Inr split: if_splits)
  from c dims' have mem: "d \<in> set ?o" by simp
  then have "index_of ?o d < length ?o" and "?o ! index_of ?o d = d"
    by (simp_all add: index_of_less nth_index_of)
  with mem show ?thesis
    unfolding dims' sh by auto
qed

text \<open>
  Whatever the reader returns for a batch, a record is assembled only when every variable
  with a channel dimension has exactly \<open>chan_batch\<close> channels: the channel coordinate of
  line 165 has that many elements.
\<close>

lemma batch_record_chan_extent:
  assumes rec: "batch_record dk prefix meta imtypes cs chan_dim chan_batch chan = Inr xds"
      and kv: "(k, v) \<in> set (data_vars xds)"
      and c: "''chan'' \<in> set (da_dims v)"
  shows "shape (da_data v) ! index_of (da_dims v) ''chan'' = chan_batch"
proof -
  from rec obtain xdas chunking xds0 xds1 where
    ra: "read_artifacts dk prefix meta (batch_pt1 meta chan_dim chan)
           (batch_pt2 meta chan_dim chan chan_batch) imtypes [] = Inr xdas"
    and x0: "xd xdas (chunk_coords_of meta chan chan_batch) (attrs meta) = Inr xds0"
    and x1: "chunk chunking xds0 = Inr xds1"
    and ro: "reorder xds1 = Inr xds"
    unfolding batch_record_def by (auto dest!: bind_err_Inr)
  from read_artifacts_var_wf [OF ra] have wf: "\<forall>kv \<in> set xdas. var_wf kv" by simp
  from x0 have "data_vars xds0 = xdas"
    by (auto simp: xd_def dest!: bind_err_Inr split: if_splits)
  with x1 have dv: "data_vars xds1 = xdas"
    by (auto simp: chunk_def split: if_splits)
  show ?thesis
  proof (cases "''pol'' \<in> set (ds_dims xds1)")
    case False
    with ro have "xds = xds1" by (simp add: reorder_def)
    with kv dv wf c show ?thesis
      by (auto intro: xd_chan_extent [OF x0])
  next
    case True
    with ro obtain order where tr: "transpose_ds order xds1 = Inr xds"
      by (auto simp: reorder_def dest!: bind_err_Inr split: option.splits)
    then obtain vs where
      vs: "map_err (transpose_entry order) (data_vars xds1) = Inr vs"
      and dvs: "data_vars xds = vs"
      by (auto simp: transpose_ds_def dest!: bind_err_Inr split: if_splits)
    from kv dvs have "(k, v) \<in> set vs" by simp
    from map_err_set [OF vs this] obtain kv0 where
      "kv0 \<in> set xdas" "transpose_entry order kv0 = Inr (k, v)"
      by (auto simp: dv)
    then obtain k0 v0 where
      k0: "(k0, v0) \<in> set xdas"
      and t0: "transpose_entry order (k0, v0) = Inr (k, v)"
      by (metis prod.collapse)
    from transpose_entry_extent [OF t0, of "''chan''"] c
    have c0: "''chan'' \<in> set (da_dims v0)"
      and eq: "shape (da_data v) ! index_of (da_dims v) ''chan'' =
               shape (da_data v0) ! index_of (da_dims v0) ''chan''"
      by simp_all
    from wf k0 have "var_wf (k0, v0)" by blast
    from xd_chan_extent [OF x0 k0 this c0] eq show ?thesis by simp
  qed
qed

end
